theory Spec2Isabelle
  imports Complex_Main "HOL-Library.Product_Lexorder"
begin

section \<open>Data model\<close>

text \<open>
  Every pandas DataFrame of the program is a list of rows. A row carries the columns
  that occur anywhere in the program; a column a frame does not have (or a cell that is
  NaN) is \<open>None\<close>. The ISBN and the average rating are always present in the frames
  modelled here. Similarity values are 64-bit floats in the source; they are modelled
  as rationals (every finite float is one, and the engines only compare and copy them;
  the rounding of the two products and the sum in the hybrid score is not modelled).
\<close>

record row =
  ISBN :: string
  Book_Title :: "string option"
  Book_Author :: "string option"
  Average_Rating :: rat
  Year_Of_Publication :: "int option"
  Publisher :: "string option"
  Image_URL_S :: "string option"
  Image_URL_M :: "string option"
  Image_URL_L :: "string option"
  Content :: "string option"
  Rating_Count :: "int option"
  Similarity_Score :: "rat option"
  Hybrid_Score :: "rat option"

text \<open>One line of the interaction log (\<open>book_rating_merged\<close>, \<open>filtered_ratings\<close>).\<close>

record rating =
  User_ID :: int
  Rated_ISBN :: string
  Book_Rating :: int

text \<open>
  A similarity DataFrame \<open>pd.DataFrame(matrix, index=labels, columns=labels)\<close>: the
  same labels on both axes, the cells by position.
\<close>

record simdf =
  labels :: "string list"
  cells :: "rat list list"

text \<open>The user-item matrix built by \<open>pivot_table\<close>.\<close>

record pivot =
  pv_index :: "string list"
  pv_columns :: "int list"
  pv_values :: "rat list list"

text \<open>
  The objects of the program live in a store, one list per kind of object, the address
  of an object being its position. \<open>frames\<close> holds the DataFrames with catalog rows
  (the shared catalog and the copies made of it), \<open>logs\<close> the interaction logs,
  \<open>pivots\<close> the user-item matrices and \<open>sims\<close> the similarity DataFrames.
\<close>

type_synonym ref = nat

record world =
  frames :: "row list list"
  logs :: "rating list list"
  pivots :: "pivot list"
  sims :: "simdf list"

datatype error =
    Unknown_Method string
  | Length_Mismatch
  | Missing_By
  | KeyError string

text \<open>
  \<open>Unknown_Method m\<close> is \<open>ValueError(f"Unknown method: {m}")\<close>; \<open>Length_Mismatch\<close> is
  the ValueError pandas raises when a column of the wrong length is assigned;
  \<open>Missing_By\<close> is the TypeError of \<open>sort_values\<close> called without \<open>by\<close> on a
  DataFrame (what \<open>df[isbn]\<close> is when the column label is not unique).
\<close>

section \<open>pandas and Python operations\<close>

text \<open>
  \<open>head(n)\<close> and the slice \<open>[:n]\<close>: the first \<open>n\<close> elements, and for a negative
  \<open>n\<close> all but the last \<open>-n\<close>.
\<close>

definition head :: "int \<Rightarrow> 'a list \<Rightarrow> 'a list" where
  "head n xs = (if 0 \<le> n then take (nat n) xs else take (length xs - nat (- n)) xs)"

text \<open>
  \<open>sort_values(ascending=False)\<close> and \<open>sorted(..., reverse=True)\<close>: pandas reverses,
  sorts ascending and reverses again. The sort is modelled as a stable one, so that
  equal keys keep their order. Python's \<open>sorted\<close> is stable; the default of
  \<open>sort_values\<close> on one key is numpy's quicksort, which is not, so that on equal keys
  the code may return the rows in another order than the model. No theorem below
  depends on the order among equal keys, and no evaluated example has equal keys.
\<close>

definition sort_values_desc :: "('a \<Rightarrow> 'k::linorder) \<Rightarrow> 'a list \<Rightarrow> 'a list" where
  "sort_values_desc key xs = rev (sort_key key (rev xs))"

text \<open>The positions at which a label occurs.\<close>

definition positions :: "'a \<Rightarrow> 'a list \<Rightarrow> nat list" where
  "positions x xs = map fst (filter (\<lambda>(i, l). l = x) (enumerate 0 xs))"

text \<open>
  \<open>df[isbn]\<close> on a similarity DataFrame: the column labelled \<open>isbn\<close> as a Series of
  (row label, value). When the label occurs more than once the result is a DataFrame
  and the \<open>sort_values(ascending=False)\<close> that follows raises.
\<close>

definition column_by_label :: "simdf \<Rightarrow> string \<Rightarrow> error + (string \<times> rat) list" where
  "column_by_label M isbn =
     (case positions isbn (labels M) of
        [] \<Rightarrow> Inl (KeyError isbn)
      | [k] \<Rightarrow> Inr (map (\<lambda>(i, l). (l, cells M ! i ! k)) (enumerate 0 (labels M)))
      | _ \<Rightarrow> Inl Missing_By)"

text \<open>
  \<open>series[list_of_labels].values\<close>: for each requested label, in the order of the
  list, the values of all entries carrying it.
\<close>

definition loc_values :: "(string \<times> rat) list \<Rightarrow> string list \<Rightarrow> rat list" where
  "loc_values series ls = concat (map (\<lambda>l. map snd (filter (\<lambda>(k, v). k = l) series)) ls)"

text \<open>\<open>df[mask].copy()\<close>: a new frame object in the store.\<close>

definition new_frame :: "row list \<Rightarrow> world \<Rightarrow> ref \<times> world" where
  "new_frame f w = (length (frames w), w\<lparr>frames := frames w @ [f]\<rparr>)"

text \<open>
  \<open>frame['Similarity-Score'] = values\<close> and \<open>frame['Hybrid-Score'] = values\<close> with an
  array or a list on the right: the frame object is changed in place, the values go to
  the rows by position, and a length that differs from the number of rows raises. (One
  case is left as the error: onto a frame without rows pandas does not raise but makes
  rows of NaN for the values. In the engines this needs labels of the index none of
  which has a catalog row, which the data loader does not produce.)
\<close>

definition assign_similarity_score :: "ref \<Rightarrow> rat list \<Rightarrow> world \<Rightarrow> error + world" where
  "assign_similarity_score a vs w =
     (if length vs \<noteq> length (frames w ! a) then Inl Length_Mismatch
      else Inr (w\<lparr>frames := (frames w)[a := map2 (\<lambda>r v. r\<lparr>Similarity_Score := Some v\<rparr>) (frames w ! a) vs]\<rparr>))"

definition assign_hybrid_score :: "ref \<Rightarrow> rat list \<Rightarrow> world \<Rightarrow> error + world" where
  "assign_hybrid_score a vs w =
     (if length vs \<noteq> length (frames w ! a) then Inl Length_Mismatch
      else Inr (w\<lparr>frames := (frames w)[a := map2 (\<lambda>r v. r\<lparr>Hybrid_Score := Some v\<rparr>) (frames w ! a) vs]\<rparr>))"

text \<open>The column selections that end the three \<open>recommend\<close> methods.\<close>

definition select_similarity :: "row \<Rightarrow> row" where
  "select_similarity r =
     \<lparr>ISBN = ISBN r, Book_Title = Book_Title r, Book_Author = Book_Author r,
      Average_Rating = Average_Rating r, Year_Of_Publication = None,
      Publisher = Publisher r, Image_URL_S = None, Image_URL_M = None,
      Image_URL_L = None, Content = None, Rating_Count = None,
      Similarity_Score = Similarity_Score r, Hybrid_Score = None\<rparr>"

definition select_hybrid :: "row \<Rightarrow> row" where
  "select_hybrid r =
     \<lparr>ISBN = ISBN r, Book_Title = Book_Title r, Book_Author = Book_Author r,
      Average_Rating = Average_Rating r, Year_Of_Publication = None,
      Publisher = Publisher r, Image_URL_S = None, Image_URL_M = None,
      Image_URL_L = None, Content = None, Rating_Count = None,
      Similarity_Score = None, Hybrid_Score = Hybrid_Score r\<rparr>"

definition select_popular :: "row \<Rightarrow> row" where
  "select_popular r =
     \<lparr>ISBN = ISBN r, Book_Title = Book_Title r, Book_Author = Book_Author r,
      Average_Rating = Average_Rating r, Year_Of_Publication = None,
      Publisher = Publisher r, Image_URL_S = None, Image_URL_M = None,
      Image_URL_L = None, Content = None, Rating_Count = Rating_Count r,
      Similarity_Score = None, Hybrid_Score = None\<rparr>"

section \<open>The collaborative and the content engine\<close>

text \<open>
  \<open>CollaborativeRecommender.recommend\<close> and \<open>ContentRecommender.recommend\<close> have the
  same body, on \<open>self.item_similarity_df\<close> and \<open>self.content_similarity_df\<close>
  respectively; \<open>similar_recommend\<close> is that body, on the similarity DataFrame at
  \<open>sim_ref\<close> and the catalog at \<open>books_ref\<close>. The empty \<open>pd.DataFrame()\<close> is the
  empty list of rows.
\<close>

definition similar_recommend ::
  "ref \<Rightarrow> ref \<Rightarrow> world \<Rightarrow> string \<Rightarrow> int \<Rightarrow> (error + row list) \<times> world" where
  "similar_recommend sim_ref books_ref w isbn n =
     (if isbn \<notin> set (labels (sims w ! sim_ref)) then (Inr [], w)
      else (case column_by_label (sims w ! sim_ref) isbn of
        Inl e \<Rightarrow> (Inl e, w)
      | Inr column \<Rightarrow>
          let similar_books = sort_values_desc snd column;
              similar_books = filter (\<lambda>(l, v). l \<noteq> isbn) similar_books;
              top_similar_isbns = map fst (head n similar_books);
              (recommendations, w1) =
                new_frame (filter (\<lambda>r. ISBN r \<in> set top_similar_isbns) (frames w ! books_ref)) w;
              similarity_scores = loc_values similar_books top_similar_isbns
          in (case assign_similarity_score recommendations similarity_scores w1 of
               Inl e \<Rightarrow> (Inl e, w1)
             | Inr w2 \<Rightarrow>
                 (Inr (map select_similarity
                        (sort_values_desc (\<lambda>r. the (Similarity_Score r))
                           (frames w2 ! recommendations))), w2))))"

record collaborative_recommender =
  c_filtered_ratings :: ref
  c_books_with_rating :: ref
  c_user_item_matrix :: ref
  c_item_similarity_df :: ref

record content_recommender =
  t_books_with_rating :: ref
  t_tfidf_matrix :: "rat list list"
  t_content_similarity_df :: ref

definition collaborative_recommend ::
  "collaborative_recommender \<Rightarrow> world \<Rightarrow> string \<Rightarrow> int \<Rightarrow> (error + row list) \<times> world" where
  "collaborative_recommend self w isbn n =
     similar_recommend (c_item_similarity_df self) (c_books_with_rating self) w isbn n"

definition content_recommend ::
  "content_recommender \<Rightarrow> world \<Rightarrow> string \<Rightarrow> int \<Rightarrow> (error + row list) \<times> world" where
  "content_recommend self w isbn n =
     similar_recommend (t_content_similarity_df self) (t_books_with_rating self) w isbn n"

section \<open>The hybrid recommender\<close>

record hybrid_recommender =
  h_collab_recommender :: collaborative_recommender
  h_content_recommender :: content_recommender

text \<open>
  The score of a candidate in one engine's list: 0 when the list does not have the
  ISBN, else the \<open>Similarity-Score\<close> of the first row that has it (\<open>.values[0]\<close>).
  Both lists come from the engines, whose rows all carry that column.
\<close>

definition listed_score :: "row list \<Rightarrow> string \<Rightarrow> rat" where
  "listed_score recs rec_isbn =
     (case filter (\<lambda>r. ISBN r = rec_isbn) recs of
        [] \<Rightarrow> 0
      | r # _ \<Rightarrow> the (Similarity_Score r))"

text \<open>
  The dictionary \<open>hybrid_scores\<close>, as the list of its items in insertion order. The
  loop runs over a Python set, whose iteration order the language leaves open:
  \<open>set_iter\<close> is that order, a function from the elements put into the set to the
  sequence in which the loop visits them. The sum is the exact one of the rationals;
  the source rounds the two products and the sum to binary64.
\<close>

definition hybrid_scores ::
  "(string list \<Rightarrow> string list) \<Rightarrow> rat \<Rightarrow> rat \<Rightarrow> row list \<Rightarrow> row list \<Rightarrow> (string \<times> rat) list" where
  "hybrid_scores set_iter collab_weight content_weight collab_recs content_recs =
     map (\<lambda>rec_isbn.
            (rec_isbn, collab_weight * listed_score collab_recs rec_isbn
                       + content_weight * listed_score content_recs rec_isbn))
         (set_iter (map ISBN collab_recs @ map ISBN content_recs))"

definition iterates_set :: "(string list \<Rightarrow> string list) \<Rightarrow> bool" where
  "iterates_set set_iter = (\<forall>xs. set (set_iter xs) = set xs \<and> distinct (set_iter xs))"

text \<open>\<open>[hybrid_scores[isbn] for isbn in ...]\<close>: a missing key raises.\<close>

fun lookup_all :: "(string \<times> rat) list \<Rightarrow> string list \<Rightarrow> error + rat list" where
  "lookup_all d [] = Inr []"
| "lookup_all d (k # ks) =
     (case map_of d k of
        None \<Rightarrow> Inl (KeyError k)
      | Some v \<Rightarrow> (case lookup_all d ks of Inl e \<Rightarrow> Inl e | Inr vs \<Rightarrow> Inr (v # vs)))"

definition hybrid_recommend ::
  "(string list \<Rightarrow> string list) \<Rightarrow> hybrid_recommender \<Rightarrow> world \<Rightarrow> string \<Rightarrow> int \<Rightarrow> rat \<Rightarrow> rat
     \<Rightarrow> (error + row list) \<times> world" where
  "hybrid_recommend set_iter self w isbn n collab_weight content_weight =
     (case collaborative_recommend (h_collab_recommender self) w isbn (n * 2) of
        (Inl e, w1) \<Rightarrow> (Inl e, w1)
      | (Inr collab_recs, w1) \<Rightarrow>
         (case content_recommend (h_content_recommender self) w1 isbn (n * 2) of
            (Inl e, w2) \<Rightarrow> (Inl e, w2)
          | (Inr content_recs, w2) \<Rightarrow>
              if collab_recs = [] then (Inr (head n content_recs), w2)
              else if content_recs = [] then (Inr (head n collab_recs), w2)
              else
                let scores = hybrid_scores set_iter collab_weight content_weight
                               collab_recs content_recs;
                    sorted_isbns = sort_values_desc snd scores;
                    top_isbns = map fst (head n sorted_isbns);
                    (recommendations, w3) =
                      new_frame
                        (filter (\<lambda>r. ISBN r \<in> set top_isbns)
                           (frames w2 ! c_books_with_rating (h_collab_recommender self))) w2
                in (case lookup_all scores (map ISBN (frames w3 ! recommendations)) of
                      Inl e \<Rightarrow> (Inl e, w3)
                    | Inr column \<Rightarrow>
                       (case assign_hybrid_score recommendations column w3 of
                          Inl e \<Rightarrow> (Inl e, w3)
                        | Inr w4 \<Rightarrow>
                            (Inr (map select_hybrid
                                   (sort_values_desc (\<lambda>r. the (Hybrid_Score r))
                                      (frames w4 ! recommendations))), w4)))))"

section \<open>The popularity recommender\<close>

record popularity_recommender =
  p_books_with_rating :: ref
  p_book_rating_merged :: ref

text \<open>
  \<open>groupby('ISBN')['Book-Rating'].count().reset_index()\<close>: one (ISBN, count) per
  ISBN of the log. pandas orders the groups by key; the inner merge below keeps the
  order of the catalog, so the order of the groups has no effect and is left as the
  order of first occurrence.
\<close>

definition rating_counts :: "rating list \<Rightarrow> (string \<times> int) list" where
  "rating_counts merged =
     map (\<lambda>i. (i, int (length (filter (\<lambda>r. Rated_ISBN r = i) merged))))
         (remdups (map Rated_ISBN merged))"

text \<open>\<open>pd.merge(books, counts, on='ISBN')\<close>: the inner join, in the order of the left frame.\<close>

definition merge_on_isbn :: "row list \<Rightarrow> (string \<times> int) list \<Rightarrow> row list" where
  "merge_on_isbn books counts =
     concat (map (\<lambda>b. map (\<lambda>(i, c). b\<lparr>Rating_Count := Some c\<rparr>)
                              (filter (\<lambda>(i, c). i = ISBN b) counts)) books)"

definition popularity_recommend ::
  "popularity_recommender \<Rightarrow> world \<Rightarrow> int \<Rightarrow> int \<Rightarrow> (error + row list) \<times> world" where
  "popularity_recommend self w n min_ratings =
     (let counts = rating_counts (logs w ! p_book_rating_merged self);
          popular_books = merge_on_isbn (frames w ! p_books_with_rating self) counts;
          popular_books = filter (\<lambda>r. the (Rating_Count r) \<ge> min_ratings) popular_books;
          popular_books =
            sort_values_desc (\<lambda>r. (Average_Rating r, the (Rating_Count r))) popular_books
      in (Inr (head n (map select_popular popular_books)), w))"

section \<open>The recommendation system\<close>

text \<open>The system after \<open>initialize\<close>: all four recommenders are built.\<close>

record system =
  s_books_with_rating :: ref
  s_filtered_ratings :: ref
  s_popularity_recommender :: popularity_recommender
  s_collaborative_recommender :: collaborative_recommender
  s_content_recommender :: content_recommender
  s_hybrid_recommender :: hybrid_recommender

text \<open>\<open>DEFAULT_MIN_RATINGS\<close> of config.py, also the default of \<open>min_ratings\<close>.\<close>

definition DEFAULT_MIN_RATINGS :: int where
  "DEFAULT_MIN_RATINGS = 50"

definition get_popular_books :: "system \<Rightarrow> world \<Rightarrow> int \<Rightarrow> int \<Rightarrow> (error + row list) \<times> world" where
  "get_popular_books self w n min_ratings =
     popularity_recommend (s_popularity_recommender self) w n min_ratings"

text \<open>
  The calls below that leave \<open>min_ratings\<close> and the two weights out take the defaults
  of the signatures: 50, and 0.5 twice.
\<close>

definition recommend_by_isbn ::
  "(string list \<Rightarrow> string list) \<Rightarrow> system \<Rightarrow> world \<Rightarrow> string \<Rightarrow> int \<Rightarrow> string
     \<Rightarrow> (error + row list) \<times> world" where
  "recommend_by_isbn set_iter self w isbn n method =
     (if method = ''popularity'' then
        popularity_recommend (s_popularity_recommender self) w n 50
      else if method = ''collaborative'' then
        collaborative_recommend (s_collaborative_recommender self) w isbn n
      else if method = ''content'' then
        content_recommend (s_content_recommender self) w isbn n
      else if method = ''hybrid'' then
        hybrid_recommend set_iter (s_hybrid_recommender self) w isbn n (1 / 2) (1 / 2)
      else (Inl (Unknown_Method method), w))"

text \<open>\<open>drop_duplicates(subset='ISBN')\<close> keeps the first row of each ISBN.\<close>

fun drop_duplicates :: "string list \<Rightarrow> row list \<Rightarrow> row list" where
  "drop_duplicates seen [] = []"
| "drop_duplicates seen (r # rs) =
     (if ISBN r \<in> set seen then drop_duplicates seen rs
      else r # drop_duplicates (ISBN r # seen) rs)"

text \<open>
  The loop of \<open>recommend_for_user\<close> over the seeds: one call per seed, the non-empty
  results collected in order; any method other than the two named ones runs the hybrid
  recommender. An exception ends the loop.
\<close>

fun seed_loop ::
  "(string list \<Rightarrow> string list) \<Rightarrow> system \<Rightarrow> int \<Rightarrow> string \<Rightarrow> string list \<Rightarrow> world
     \<Rightarrow> (error + row list list) \<times> world" where
  "seed_loop set_iter self n method [] w = (Inr [], w)"
| "seed_loop set_iter self n method (isbn # rest) w =
     (case (if method = ''collaborative'' then
              collaborative_recommend (s_collaborative_recommender self) w isbn n
            else if method = ''content'' then
              content_recommend (s_content_recommender self) w isbn n
            else hybrid_recommend set_iter (s_hybrid_recommender self) w isbn n (1 / 2) (1 / 2)) of
        (Inl e, w1) \<Rightarrow> (Inl e, w1)
      | (Inr recs, w1) \<Rightarrow>
         (case seed_loop set_iter self n method rest w1 of
            (Inl e, w2) \<Rightarrow> (Inl e, w2)
          | (Inr all_recommendations, w2) \<Rightarrow>
              (Inr (if recs \<noteq> [] then recs # all_recommendations else all_recommendations), w2)))"

definition recommend_for_user ::
  "(string list \<Rightarrow> string list) \<Rightarrow> system \<Rightarrow> world \<Rightarrow> int \<Rightarrow> int \<Rightarrow> string
     \<Rightarrow> (error + row list) \<times> world" where
  "recommend_for_user set_iter self w user_id n method =
     (let user_rated_books =
            map Rated_ISBN (filter (\<lambda>r. User_ID r = user_id) (logs w ! s_filtered_ratings self))
      in if user_rated_books = [] then
           popularity_recommend (s_popularity_recommender self) w n 50
         else
           let user_ratings =
                 sort_values_desc Book_Rating
                   (filter (\<lambda>r. User_ID r = user_id) (logs w ! s_filtered_ratings self));
               top_user_books = map Rated_ISBN (head 3 user_ratings)
           in if method = ''popularity'' then
                popularity_recommend (s_popularity_recommender self) w n 50
              else
                (case seed_loop set_iter self n method top_user_books w of
                   (Inl e, w1) \<Rightarrow> (Inl e, w1)
                 | (Inr all_recommendations, w1) \<Rightarrow>
                     if all_recommendations \<noteq> [] then
                       let combined = concat all_recommendations;
                           combined = filter (\<lambda>r. ISBN r \<notin> set user_rated_books) combined;
                           combined = drop_duplicates [] combined
                       in (Inr (head n combined), w1)
                     else (Inr [], w1)))"

section \<open>Construction of the recommenders\<close>

text \<open>
  pandas' \<open>pivot_table\<close> and scikit-learn's \<open>cosine_similarity\<close> and
  \<open>TfidfVectorizer(...).fit_transform\<close> are not code of the repository: the
  constructors take them as parameters.
\<close>

record library =
  pivot_table :: "rating list \<Rightarrow> pivot"
  cosine_similarity :: "rat list list \<Rightarrow> rat list list"
  tfidf_fit_transform :: "string list \<Rightarrow> rat list list"

definition new_log :: "rating list \<Rightarrow> world \<Rightarrow> ref \<times> world" where
  "new_log l w = (length (logs w), w\<lparr>logs := logs w @ [l]\<rparr>)"

definition new_pivot :: "pivot \<Rightarrow> world \<Rightarrow> ref \<times> world" where
  "new_pivot p w = (length (pivots w), w\<lparr>pivots := pivots w @ [p]\<rparr>)"

definition new_sim :: "simdf \<Rightarrow> world \<Rightarrow> ref \<times> world" where
  "new_sim m w = (length (sims w), w\<lparr>sims := sims w @ [m]\<rparr>)"

text \<open>\<open>fillna('')\<close> on a text cell.\<close>

definition fillna :: "string option \<Rightarrow> string" where
  "fillna c = (case c of None \<Rightarrow> [] | Some t \<Rightarrow> t)"

text \<open>The text the content engine derives for a book.\<close>

definition content_document :: "row \<Rightarrow> string" where
  "content_document r =
     fillna (Book_Author r) @ '' '' @ fillna (Publisher r) @ '' '' @ fillna (Book_Title r)"

text \<open>
  \<open>frame['Content'] = series\<close>, the series computed from the same frame: the frame
  object is changed in place.
\<close>

definition assign_content :: "ref \<Rightarrow> string list \<Rightarrow> world \<Rightarrow> world" where
  "assign_content a vs w =
     w\<lparr>frames := (frames w)[a := map2 (\<lambda>r v. r\<lparr>Content := Some v\<rparr>) (frames w ! a) vs]\<rparr>"

text \<open>\<open>DataLoader.get_filtered_ratings\<close>, on the merged log at \<open>merged\<close>.\<close>

definition get_filtered_ratings :: "ref \<Rightarrow> int \<Rightarrow> int \<Rightarrow> world \<Rightarrow> ref \<times> world" where
  "get_filtered_ratings merged min_book_ratings min_user_ratings w =
     (let m = logs w ! merged;
          valid_books = filter (\<lambda>i. int (count_list (map Rated_ISBN m) i) \<ge> min_book_ratings)
                          (remdups (map Rated_ISBN m));
          valid_users = filter (\<lambda>u. int (count_list (map User_ID m) u) \<ge> min_user_ratings)
                          (remdups (map User_ID m))
      in new_log (filter (\<lambda>r. Rated_ISBN r \<in> set valid_books \<and> User_ID r \<in> set valid_users) m) w)"

text \<open>\<open>CollaborativeRecommender.__init__\<close> with \<open>_build_model\<close>.\<close>

definition CollaborativeRecommender ::
  "library \<Rightarrow> ref \<Rightarrow> ref \<Rightarrow> world \<Rightarrow> collaborative_recommender \<times> world" where
  "CollaborativeRecommender lib filtered_ratings books_with_rating w =
     (let (user_item_matrix, w1) = new_pivot (pivot_table lib (logs w ! filtered_ratings)) w;
          item_similarity = cosine_similarity lib (pv_values (pivots w1 ! user_item_matrix));
          (item_similarity_df, w2) =
            new_sim \<lparr>labels = pv_index (pivots w1 ! user_item_matrix),
                     cells = item_similarity\<rparr> w1
      in (\<lparr>c_filtered_ratings = filtered_ratings, c_books_with_rating = books_with_rating,
           c_user_item_matrix = user_item_matrix,
           c_item_similarity_df = item_similarity_df\<rparr>, w2))"

text \<open>
  \<open>ContentRecommender.__init__\<close> with \<open>_build_model\<close>: the \<open>Content\<close> column is
  written into the frame the recommender was given, not into a copy.
\<close>

definition ContentRecommender :: "library \<Rightarrow> ref \<Rightarrow> world \<Rightarrow> content_recommender \<times> world" where
  "ContentRecommender lib books_with_rating w =
     (let w1 = assign_content books_with_rating
                 (map content_document (frames w ! books_with_rating)) w;
          tfidf_matrix =
            tfidf_fit_transform lib (map (\<lambda>r. the (Content r)) (frames w1 ! books_with_rating));
          content_similarity = cosine_similarity lib tfidf_matrix;
          (content_similarity_df, w2) =
            new_sim \<lparr>labels = map ISBN (frames w1 ! books_with_rating),
                     cells = content_similarity\<rparr> w1
      in (\<lparr>t_books_with_rating = books_with_rating, t_tfidf_matrix = tfidf_matrix,
           t_content_similarity_df = content_similarity_df\<rparr>, w2))"

text \<open>
  \<open>BookRecommendationSystem.initialize\<close> from the point where the data loader has
  produced \<open>books_with_rating\<close> and \<open>book_rating_merged\<close>: the same catalog object is
  handed to the popularity, the collaborative and the content recommender.
\<close>

definition initialize ::
  "library \<Rightarrow> int \<Rightarrow> int \<Rightarrow> ref \<Rightarrow> ref \<Rightarrow> world \<Rightarrow> system \<times> world" where
  "initialize lib min_book_ratings min_user_ratings books_with_rating book_rating_merged w =
     (let (filtered_ratings, w1) =
            get_filtered_ratings book_rating_merged min_book_ratings min_user_ratings w;
          popularity = \<lparr>p_books_with_rating = books_with_rating,
                        p_book_rating_merged = book_rating_merged\<rparr>;
          (collaborative, w2) =
            CollaborativeRecommender lib filtered_ratings books_with_rating w1;
          (content, w3) = ContentRecommender lib books_with_rating w2;
          hybrid = \<lparr>h_collab_recommender = collaborative, h_content_recommender = content\<rparr>
      in (\<lparr>s_books_with_rating = books_with_rating, s_filtered_ratings = filtered_ratings,
           s_popularity_recommender = popularity,
           s_collaborative_recommender = collaborative,
           s_content_recommender = content, s_hybrid_recommender = hybrid\<rparr>, w3))"

section \<open>Values and effects of the calls\<close>

text \<open>
  The value \<open>recommend\<close> of an engine returns, as a function of the similarity
  DataFrame and the catalog alone (lemma \<open>similar_recommend_value\<close> below).
\<close>

definition similar_result :: "simdf \<Rightarrow> row list \<Rightarrow> string \<Rightarrow> int \<Rightarrow> error + row list" where
  "similar_result M catalog isbn n =
     (if isbn \<notin> set (labels M) then Inr []
      else (case column_by_label M isbn of
        Inl e \<Rightarrow> Inl e
      | Inr column \<Rightarrow>
          let similar_books = filter (\<lambda>(l, v). l \<noteq> isbn) (sort_values_desc snd column);
              top_similar_isbns = map fst (head n similar_books);
              recs = filter (\<lambda>r. ISBN r \<in> set top_similar_isbns) catalog;
              similarity_scores = loc_values similar_books top_similar_isbns
          in if length similarity_scores \<noteq> length recs then Inl Length_Mismatch
             else Inr (map select_similarity
                        (sort_values_desc (\<lambda>r. the (Similarity_Score r))
                           (map2 (\<lambda>r v. r\<lparr>Similarity_Score := Some v\<rparr>) recs similarity_scores)))))"

text \<open>
  The value of the hybrid recommender once both engines have answered (lemma
  \<open>hybrid_recommend_value\<close> below).
\<close>

definition hybrid_result ::
  "(string list \<Rightarrow> string list) \<Rightarrow> row list \<Rightarrow> int \<Rightarrow> rat \<Rightarrow> rat \<Rightarrow> row list \<Rightarrow> row list
     \<Rightarrow> error + row list" where
  "hybrid_result set_iter catalog n collab_weight content_weight collab_recs content_recs =
     (if collab_recs = [] then Inr (head n content_recs)
      else if content_recs = [] then Inr (head n collab_recs)
      else
        let scores = hybrid_scores set_iter collab_weight content_weight collab_recs content_recs;
            top_isbns = map fst (head n (sort_values_desc snd scores));
            recs = filter (\<lambda>r. ISBN r \<in> set top_isbns) catalog
        in (case lookup_all scores (map ISBN recs) of
              Inl e \<Rightarrow> Inl e
            | Inr column \<Rightarrow>
                if length column \<noteq> length recs then Inl Length_Mismatch
                else Inr (map select_hybrid
                           (sort_values_desc (\<lambda>r. the (Hybrid_Score r))
                              (map2 (\<lambda>r v. r\<lparr>Hybrid_Score := Some v\<rparr>) recs column)))))"

text \<open>
  \<open>extends w w'\<close>: every object of \<open>w\<close> is in \<open>w'\<close> at its address, unchanged, and the
  only new objects of \<open>w'\<close> are frames.
\<close>

definition extends :: "world \<Rightarrow> world \<Rightarrow> bool" where
  "extends w w' =
     (logs w' = logs w \<and> pivots w' = pivots w \<and> sims w' = sims w \<and>
      take (length (frames w)) (frames w') = frames w)"

text \<open>
  What the length claim needs of an engine: the index of the similarity DataFrame has
  no repeated label, and the catalog has exactly one row for every ISBN of the index. A
  catalog with one row per ISBN that has a row for every label is such a catalog (lemma
  \<open>one_row_per_isbn_distinct\<close> below); ISBNs outside the index may repeat.
\<close>

definition one_row_per_isbn :: "simdf \<Rightarrow> row list \<Rightarrow> bool" where
  "one_row_per_isbn M catalog =
     (distinct (labels M) \<and>
      list_all (\<lambda>l. length (filter (\<lambda>r. ISBN r = l) catalog) = 1) (labels M))"

text \<open>The lexicographic comparison of two rows of the popularity ranking.\<close>

definition rank_ge :: "row \<Rightarrow> row \<Rightarrow> bool" where
  "rank_ge r r' =
     (Average_Rating r > Average_Rating r' \<or>
      (Average_Rating r = Average_Rating r' \<and> the (Rating_Count r) \<ge> the (Rating_Count r')))"

section \<open>A small system\<close>

text \<open>
  Four books, a collaborative index over three of them and a content index over all
  four; in catalog order the book 222 comes before 333, while 333 is the more similar
  to 111 and to 444.
\<close>

definition example_book :: "string \<Rightarrow> rat \<Rightarrow> row" where
  "example_book i avg =
     \<lparr>ISBN = i, Book_Title = Some (''Title '' @ i), Book_Author = Some ''Author'',
      Average_Rating = avg, Year_Of_Publication = Some 2000, Publisher = Some ''Press'',
      Image_URL_S = Some ''s'', Image_URL_M = Some ''m'', Image_URL_L = Some ''l'',
      Content = None, Rating_Count = None, Similarity_Score = None, Hybrid_Score = None\<rparr>"

definition example_catalog :: "row list" where
  "example_catalog =
     [example_book ''111'' 8, example_book ''222'' 9, example_book ''333'' 9,
      example_book ''444'' 7]"

definition example_rating :: "int \<Rightarrow> string \<Rightarrow> int \<Rightarrow> rating" where
  "example_rating u i v = \<lparr>User_ID = u, Rated_ISBN = i, Book_Rating = v\<rparr>"

definition example_merged :: "rating list" where
  "example_merged =
     [example_rating 1 ''111'' 8, example_rating 1 ''222'' 9, example_rating 1 ''333'' 9,
      example_rating 2 ''111'' 8, example_rating 2 ''222'' 9, example_rating 2 ''333'' 9,
      example_rating 3 ''333'' 9, example_rating 3 ''444'' 7]"

definition example_filtered :: "rating list" where
  "example_filtered =
     [example_rating 1 ''111'' 8, example_rating 1 ''222'' 9, example_rating 1 ''333'' 9,
      example_rating 2 ''111'' 8, example_rating 2 ''222'' 9, example_rating 2 ''333'' 9]"

definition example_item_similarity :: simdf where
  "example_item_similarity =
     \<lparr>labels = [''111'', ''222'', ''333''],
      cells = [[1, 1 / 10, 9 / 10],
               [1 / 10, 1, 0],
               [9 / 10, 0, 1]]\<rparr>"

definition example_content_similarity :: simdf where
  "example_content_similarity =
     \<lparr>labels = [''111'', ''222'', ''333'', ''444''],
      cells = [[1, 3 / 10, 4 / 10, 1 / 10],
               [3 / 10, 1, 5 / 10, 2 / 10],
               [4 / 10, 5 / 10, 1, 9 / 10],
               [1 / 10, 2 / 10, 9 / 10, 1]]\<rparr>"

definition example_world :: world where
  "example_world =
     \<lparr>frames = [example_catalog], logs = [example_merged, example_filtered],
      pivots = [\<lparr>pv_index = [''111'', ''222'', ''333''], pv_columns = [1, 2],
                 pv_values = [[8, 8], [9, 9], [9, 9]]\<rparr>],
      sims = [example_item_similarity, example_content_similarity]\<rparr>"

definition example_collaborative :: collaborative_recommender where
  "example_collaborative =
     \<lparr>c_filtered_ratings = 1, c_books_with_rating = 0, c_user_item_matrix = 0,
      c_item_similarity_df = 0\<rparr>"

definition example_content :: content_recommender where
  "example_content =
     \<lparr>t_books_with_rating = 0, t_tfidf_matrix = [], t_content_similarity_df = 1\<rparr>"

definition example_hybrid :: hybrid_recommender where
  "example_hybrid =
     \<lparr>h_collab_recommender = example_collaborative, h_content_recommender = example_content\<rparr>"

definition example_popularity :: popularity_recommender where
  "example_popularity = \<lparr>p_books_with_rating = 0, p_book_rating_merged = 0\<rparr>"

definition example_system :: system where
  "example_system =
     \<lparr>s_books_with_rating = 0, s_filtered_ratings = 1,
      s_popularity_recommender = example_popularity,
      s_collaborative_recommender = example_collaborative,
      s_content_recommender = example_content, s_hybrid_recommender = example_hybrid\<rparr>"

text \<open>A row as an engine returns it: the selected columns of a book, with a score.\<close>

definition example_scored :: "string \<Rightarrow> rat \<Rightarrow> rat \<Rightarrow> row" where
  "example_scored i avg v = select_similarity ((example_book i avg)\<lparr>Similarity_Score := Some v\<rparr>)"

text \<open>A row as the hybrid recommender and as the popularity recommender return it.\<close>

definition example_hybrid_row :: "string \<Rightarrow> rat \<Rightarrow> rat \<Rightarrow> row" where
  "example_hybrid_row i avg v = select_hybrid ((example_book i avg)\<lparr>Hybrid_Score := Some v\<rparr>)"

definition example_popular_row :: "string \<Rightarrow> rat \<Rightarrow> int \<Rightarrow> row" where
  "example_popular_row i avg c = select_popular ((example_book i avg)\<lparr>Rating_Count := Some c\<rparr>)"

text \<open>Stand-ins for the library functions, to build the small system's content engine.\<close>

definition example_library :: library where
  "example_library =
     \<lparr>pivot_table = (\<lambda>log. \<lparr>pv_index = remdups (map Rated_ISBN log),
                               pv_columns = remdups (map User_ID log), pv_values = []\<rparr>),
      cosine_similarity = (\<lambda>m. cells example_content_similarity),
      tfidf_fit_transform = (\<lambda>docs. [])\<rparr>"

section \<open>Basic facts\<close>

lemma head_is_take: "\<exists>k. head n xs = take k xs"
  by (auto simp: head_def)

lemma set_head: "set (head n xs) \<subseteq> set xs"
  by (auto simp: head_def dest: in_set_takeD)

lemma length_head: "0 \<le> n \<Longrightarrow> length (head n xs) = min (nat n) (length xs)"
  by (simp add: head_def min.commute)

lemma set_sort_values_desc: "set (sort_values_desc key xs) = set xs"
  by (simp add: sort_values_desc_def)

lemma length_sort_values_desc: "length (sort_values_desc key xs) = length xs"
  by (simp add: sort_values_desc_def)

lemma distinct_sort_values_desc: "distinct (sort_values_desc key xs) = distinct xs"
  by (simp add: sort_values_desc_def)

lemma filter_sort_values_desc:
  "filter P (sort_values_desc key xs) = sort_values_desc key (filter P xs)"
  by (simp add: sort_values_desc_def filter_sort rev_filter [symmetric])

lemma sorted_sort_values_desc:
  "sorted_wrt (\<lambda>x y. key x \<ge> key y) (sort_values_desc key xs)"
proof -
  have "sorted (map key (sort_key key (rev xs)))" by simp
  then have "sorted_wrt (\<lambda>x y. key x \<le> key y) (sort_key key (rev xs))"
    by (simp add: sorted_wrt_map)
  then show ?thesis
    by (simp add: sort_values_desc_def sorted_wrt_rev)
qed

lemma similar_recommend_value:
  "fst (similar_recommend s b w isbn n) = similar_result (sims w ! s) (frames w ! b) isbn n"
  by (simp add: similar_recommend_def similar_result_def new_frame_def
      assign_similarity_score_def Let_def split: sum.splits)

lemma extends_refl: "extends w w"
  by (simp add: extends_def)

lemma take_take_prefix:
  assumes "take (length xs) ys = xs" and "take (length ys) zs = ys"
  shows "take (length xs) zs = xs"
proof -
  have "length (take (length xs) ys) = length xs" using assms(1) by simp
  then have "length xs \<le> length ys" by simp
  then have "take (length xs) zs = take (length xs) (take (length ys) zs)"
    by simp
  then show ?thesis using assms by simp
qed

lemma extends_trans: "extends w w1 \<Longrightarrow> extends w1 w2 \<Longrightarrow> extends w w2"
  unfolding extends_def using take_take_prefix by auto

lemma similar_recommend_extends: "extends w (snd (similar_recommend s b w isbn n))"
  by (simp add: similar_recommend_def new_frame_def extends_def
      assign_similarity_score_def Let_def split: sum.splits)

lemma extends_frame: "extends w w' \<Longrightarrow> a < length (frames w) \<Longrightarrow> frames w' ! a = frames w ! a"
  unfolding extends_def by (metis nth_take)

lemma hybrid_recommend_value:
  "fst (hybrid_recommend set_iter self w isbn n cw tw) =
     (case collaborative_recommend (h_collab_recommender self) w isbn (n * 2) of
        (Inl e, w1) \<Rightarrow> Inl e
      | (Inr collab_recs, w1) \<Rightarrow>
          (case content_recommend (h_content_recommender self) w1 isbn (n * 2) of
             (Inl e, w2) \<Rightarrow> Inl e
           | (Inr content_recs, w2) \<Rightarrow>
               hybrid_result set_iter
                 (frames w2 ! c_books_with_rating (h_collab_recommender self))
                 n cw tw collab_recs content_recs))"
  by (simp add: hybrid_recommend_def hybrid_result_def new_frame_def
      assign_hybrid_score_def Let_def split: sum.splits prod.splits)

lemma hybrid_recommend_extends: "extends w (snd (hybrid_recommend set_iter self w isbn n cw tw))"
proof -
  obtain r1 w1 where c: "collaborative_recommend (h_collab_recommender self) w isbn (n * 2) = (r1, w1)"
    by (cases "collaborative_recommend (h_collab_recommender self) w isbn (n * 2)")
  obtain r2 w2 where t: "content_recommend (h_content_recommender self) w1 isbn (n * 2) = (r2, w2)"
    by (cases "content_recommend (h_content_recommender self) w1 isbn (n * 2)")
  have e1: "extends w w1"
    using similar_recommend_extends [of w "c_item_similarity_df (h_collab_recommender self)"
        "c_books_with_rating (h_collab_recommender self)" isbn "n * 2"] c
    by (simp add: collaborative_recommend_def)
  have e2: "extends w1 w2"
    using similar_recommend_extends [of w1 "t_content_similarity_df (h_content_recommender self)"
        "t_books_with_rating (h_content_recommender self)" isbn "n * 2"] t
    by (simp add: content_recommend_def)
  have e12: "extends w w2" using e1 e2 by (rule extends_trans)
  show ?thesis
  proof (cases r1)
    case (Inl e)
    then show ?thesis using c e1 by (simp add: hybrid_recommend_def)
  next
    case (Inr cr)
    show ?thesis
    proof (cases r2)
      case (Inl e)
      then show ?thesis using c t Inr e12 by (simp add: hybrid_recommend_def)
    next
      case tr: (Inr tr)
      have "extends w2 (snd (hybrid_recommend set_iter self w isbn n cw tw))"
        using c t Inr tr
        by (simp add: hybrid_recommend_def new_frame_def extends_def assign_hybrid_score_def
            Let_def split: sum.splits prod.splits)
      with e12 show ?thesis by (rule extends_trans)
    qed
  qed
qed

lemma extends_sims: "extends w w' \<Longrightarrow> sims w' = sims w"
  by (simp add: extends_def)

lemma extends_length: "extends w w' \<Longrightarrow> length (frames w) \<le> length (frames w')"
  unfolding extends_def by (metis length_take min.cobounded1)

lemma hybrid_recommend_value_closed:
  assumes "c_books_with_rating (h_collab_recommender self) < length (frames w)"
    and "t_books_with_rating (h_content_recommender self) < length (frames w)"
  shows "fst (hybrid_recommend set_iter self w isbn n cw tw) =
     (case similar_result (sims w ! c_item_similarity_df (h_collab_recommender self))
             (frames w ! c_books_with_rating (h_collab_recommender self)) isbn (n * 2) of
        Inl e \<Rightarrow> Inl e
      | Inr collab_recs \<Rightarrow>
          (case similar_result (sims w ! t_content_similarity_df (h_content_recommender self))
                  (frames w ! t_books_with_rating (h_content_recommender self)) isbn (n * 2) of
             Inl e \<Rightarrow> Inl e
           | Inr content_recs \<Rightarrow>
               hybrid_result set_iter
                 (frames w ! c_books_with_rating (h_collab_recommender self))
                 n cw tw collab_recs content_recs))"
proof -
  let ?c = "h_collab_recommender self" and ?t = "h_content_recommender self"
  obtain r1 w1 where c: "collaborative_recommend ?c w isbn (n * 2) = (r1, w1)"
    by (cases "collaborative_recommend ?c w isbn (n * 2)")
  obtain r2 w2 where t: "content_recommend ?t w1 isbn (n * 2) = (r2, w2)"
    by (cases "content_recommend ?t w1 isbn (n * 2)")
  have e1: "extends w w1"
    using similar_recommend_extends [of w "c_item_similarity_df ?c"
        "c_books_with_rating ?c" isbn "n * 2"] c
    by (simp add: collaborative_recommend_def)
  have e2: "extends w1 w2"
    using similar_recommend_extends [of w1 "t_content_similarity_df ?t"
        "t_books_with_rating ?t" isbn "n * 2"] t
    by (simp add: content_recommend_def)
  have r1: "r1 = similar_result (sims w ! c_item_similarity_df ?c)
                   (frames w ! c_books_with_rating ?c) isbn (n * 2)"
    using similar_recommend_value [of "c_item_similarity_df ?c" "c_books_with_rating ?c" w isbn "n * 2"] c
    by (simp add: collaborative_recommend_def)
  have "r2 = similar_result (sims w1 ! t_content_similarity_df ?t)
                   (frames w1 ! t_books_with_rating ?t) isbn (n * 2)"
    using similar_recommend_value [of "t_content_similarity_df ?t" "t_books_with_rating ?t" w1 isbn "n * 2"] t
    by (simp add: content_recommend_def)
  then have r2: "r2 = similar_result (sims w ! t_content_similarity_df ?t)
                   (frames w ! t_books_with_rating ?t) isbn (n * 2)"
    using e1 assms(2) by (simp add: extends_sims extends_frame)
  have "extends w w2" using e1 e2 by (rule extends_trans)
  then have f: "frames w2 ! c_books_with_rating ?c = frames w ! c_books_with_rating ?c"
    using assms(1) by (rule extends_frame)
  show ?thesis
    unfolding hybrid_recommend_value c using t r1 [symmetric] r2 [symmetric] f
    by (simp split: sum.splits)
qed

section \<open>The small system evaluated\<close>

lemma iterates_set_remdups: "iterates_set remdups"
  by (simp add: iterates_set_def)

lemma example_refs_valid:
  "c_books_with_rating (h_collab_recommender example_hybrid) < length (frames example_world)"
  "t_books_with_rating (h_content_recommender example_hybrid) < length (frames example_world)"
  by (simp_all add: example_hybrid_def example_collaborative_def example_content_def
      example_world_def)

lemma example_collaborative_111:
  "fst (collaborative_recommend example_collaborative example_world ''111'' 2)
     = Inr [example_scored ''222'' 9 (9 / 10), example_scored ''333'' 9 (1 / 10)]"
  by (simp add: collaborative_recommend_def content_recommend_def
      similar_recommend_value similar_result_def example_hybrid_def
      example_collaborative_def example_content_def example_world_def
      example_item_similarity_def example_content_similarity_def
      example_catalog_def example_book_def example_scored_def
      column_by_label_def positions_def sort_values_desc_def head_def loc_values_def
      select_similarity_def)

lemma example_content_111:
  "fst (content_recommend example_content example_world ''111'' 2)
     = Inr [example_scored ''222'' 9 (2 / 5), example_scored ''333'' 9 (3 / 10)]"
  by (simp add: collaborative_recommend_def content_recommend_def
      similar_recommend_value similar_result_def example_hybrid_def
      example_collaborative_def example_content_def example_world_def
      example_item_similarity_def example_content_similarity_def
      example_catalog_def example_book_def example_scored_def
      column_by_label_def positions_def sort_values_desc_def head_def loc_values_def
      select_similarity_def)

lemma example_hybrid_111:
  "fst (hybrid_recommend remdups example_hybrid example_world ''111'' 1 (1 / 2) (1 / 2))
     = Inr [example_hybrid_row ''222'' 9 (13 / 20)]"
  using example_refs_valid
  by (simp add: hybrid_recommend_value_closed hybrid_result_def hybrid_scores_def
      listed_score_def select_hybrid_def example_hybrid_row_def
      collaborative_recommend_def content_recommend_def
      similar_recommend_value similar_result_def example_hybrid_def
      example_collaborative_def example_content_def example_world_def
      example_item_similarity_def example_content_similarity_def
      example_catalog_def example_book_def example_scored_def
      column_by_label_def positions_def sort_values_desc_def head_def loc_values_def
      select_similarity_def)

lemma example_content_111_after:
  "fst (content_recommend example_content
          (snd (collaborative_recommend example_collaborative example_world ''111'' 2)) ''111'' 2)
     = Inr [example_scored ''222'' 9 (2 / 5), example_scored ''333'' 9 (3 / 10)]"
proof -
  let ?w1 = "snd (collaborative_recommend example_collaborative example_world ''111'' 2)"
  have e: "extends example_world ?w1"
    unfolding collaborative_recommend_def by (rule similar_recommend_extends)
  have "t_books_with_rating example_content < length (frames example_world)"
    by (simp add: example_content_def example_world_def)
  with e have "frames ?w1 ! t_books_with_rating example_content
      = frames example_world ! t_books_with_rating example_content"
    by (rule extends_frame)
  moreover have "sims ?w1 = sims example_world" using e by (rule extends_sims)
  ultimately have "fst (content_recommend example_content ?w1 ''111'' 2)
      = fst (content_recommend example_content example_world ''111'' 2)"
    by (simp add: content_recommend_def similar_recommend_value)
  then show ?thesis by (simp add: example_content_111)
qed

lemma example_rating_counts: "rating_counts (logs example_world ! p_book_rating_merged example_popularity)
   = [(''111'', 2), (''222'', 2), (''333'', 3), (''444'', 1)]"
  by (simp add: rating_counts_def example_popularity_def example_world_def
        example_merged_def example_rating_def)

lemma example_merge_on_isbn: "merge_on_isbn (frames example_world ! p_books_with_rating example_popularity)
     [(''111'', 2), (''222'', 2), (''333'', 3), (''444'', 1)]
   = [(example_book ''111'' 8)\<lparr>Rating_Count := Some 2\<rparr>, (example_book ''222'' 9)\<lparr>Rating_Count := Some 2\<rparr>,
      (example_book ''333'' 9)\<lparr>Rating_Count := Some 3\<rparr>, (example_book ''444'' 7)\<lparr>Rating_Count := Some 1\<rparr>]"
  by (simp add: merge_on_isbn_def example_popularity_def example_world_def example_catalog_def example_book_def)

section \<open>Unknown ISBNs, unknown methods, users without ratings\<close>

text \<open>
  Claim C5. For an ISBN that is not a label of the collaborative similarity DataFrame,
  \<open>CollaborativeRecommender.recommend\<close> returns the empty result, raises nothing and
  leaves the store as it is, for every \<open>n\<close>; the same for the content recommender and
  the labels of the content similarity DataFrame.
\<close>

theorem recommend_absent_isbn_is_empty:
  "(isbn \<notin> set (labels (sims w ! c_item_similarity_df collab)) \<longrightarrow>
      collaborative_recommend collab w isbn n = (Inr [], w)) \<and>
   (isbn \<notin> set (labels (sims w ! t_content_similarity_df content)) \<longrightarrow>
      content_recommend content w isbn n = (Inr [], w))"
  by (simp add: collaborative_recommend_def content_recommend_def similar_recommend_def)

theorem recommend_absent_isbn_is_empty_witness:
  "''444'' \<notin> set (labels (sims example_world ! c_item_similarity_df example_collaborative)) \<and>
   collaborative_recommend example_collaborative example_world ''444'' 5 = (Inr [], example_world) \<and>
   ''555'' \<notin> set (labels (sims example_world ! t_content_similarity_df example_content)) \<and>
   content_recommend example_content example_world ''555'' 5 = (Inr [], example_world)"
  using recommend_absent_isbn_is_empty
          [of "''444''" example_world example_collaborative 5 example_content]
        recommend_absent_isbn_is_empty
          [of "''555''" example_world example_collaborative 5 example_content]
  by (simp add: example_world_def example_collaborative_def example_content_def
      example_item_similarity_def example_content_similarity_def)

text \<open>
  Claim C6. \<open>recommend_by_isbn\<close> with a method other than \<open>popularity\<close>,
  \<open>collaborative\<close>, \<open>content\<close> and \<open>hybrid\<close> raises the ValueError
  \<open>Unknown method\<close>, for every ISBN and every \<open>n\<close>: no recommender is called and no
  result is returned.
\<close>

theorem recommend_by_isbn_unknown_method:
  "method \<notin> {''popularity'', ''collaborative'', ''content'', ''hybrid''} \<Longrightarrow>
   recommend_by_isbn set_iter self w isbn n method = (Inl (Unknown_Method method), w)"
  by (simp add: recommend_by_isbn_def)

theorem recommend_by_isbn_unknown_method_witness:
  "''Hybrid'' \<notin> {''popularity'', ''collaborative'', ''content'', ''hybrid''} \<and>
   recommend_by_isbn remdups example_system example_world ''111'' 5 ''Hybrid''
     = (Inl (Unknown_Method ''Hybrid''), example_world)"
proof -
  have h: "''Hybrid'' \<notin> {''popularity'', ''collaborative'', ''content'', ''hybrid''}" by simp
  show ?thesis using h recommend_by_isbn_unknown_method [OF h] by simp
qed

text \<open>
  Claim C9. For a user without a line in the filtered interaction log,
  \<open>recommend_for_user\<close> returns what \<open>get_popular_books\<close> returns for the same \<open>n\<close>
  and the default minimum of 50 ratings, whatever the method.
\<close>

theorem recommend_for_user_without_ratings:
  "user_id \<notin> set (map User_ID (logs w ! s_filtered_ratings self)) \<Longrightarrow>
   recommend_for_user set_iter self w user_id n method
     = get_popular_books self w n DEFAULT_MIN_RATINGS"
  by (auto simp add: recommend_for_user_def get_popular_books_def DEFAULT_MIN_RATINGS_def
      filter_empty_conv)

theorem recommend_for_user_without_ratings_witness:
  "3 \<notin> set (map User_ID (logs example_world ! s_filtered_ratings example_system)) \<and>
   recommend_for_user remdups example_system example_world 3 5 ''collaborative''
     = get_popular_books example_system example_world 5 DEFAULT_MIN_RATINGS"
proof -
  have h: "3 \<notin> set (map User_ID (logs example_world ! s_filtered_ratings example_system))"
    by (simp add: example_world_def example_system_def example_filtered_def example_rating_def)
  show ?thesis using h recommend_for_user_without_ratings [OF h] by simp
qed

section \<open>The score of a row\<close>

text \<open>
  Claim C1 says that every row of an engine's result reports the similarity of the seed
  and the book of that row. The engines put the scores, which are in descending order
  of similarity, onto the rows of the catalog copy, which are in catalog order. For the
  seed 111 and \<open>n = 2\<close> the collaborative engine reports 9/10 for the book 222, whose
  similarity to 111 is 1/10 (and 1/10 for 333, whose similarity is 9/10); for the seed
  444 the content engine reports 9/10 for 222, whose similarity to 444 is 1/5.
\<close>

theorem recommend_score_of_other_book:
  "fst (collaborative_recommend example_collaborative example_world ''111'' 2)
     = Inr [example_scored ''222'' 9 (9 / 10), example_scored ''333'' 9 (1 / 10)] \<and>
   labels (sims example_world ! c_item_similarity_df example_collaborative)
     = [''111'', ''222'', ''333''] \<and>
   cells (sims example_world ! c_item_similarity_df example_collaborative) ! 1 ! 0 = 1 / 10 \<and>
   cells (sims example_world ! c_item_similarity_df example_collaborative) ! 2 ! 0 = 9 / 10 \<and>
   fst (content_recommend example_content example_world ''444'' 2)
     = Inr [example_scored ''222'' 9 (9 / 10), example_scored ''333'' 9 (1 / 5)] \<and>
   labels (sims example_world ! t_content_similarity_df example_content)
     = [''111'', ''222'', ''333'', ''444''] \<and>
   cells (sims example_world ! t_content_similarity_df example_content) ! 1 ! 3 = 1 / 5 \<and>
   cells (sims example_world ! t_content_similarity_df example_content) ! 2 ! 3 = 9 / 10"
  by (simp add: collaborative_recommend_def content_recommend_def
      similar_recommend_value similar_result_def example_hybrid_def
      example_collaborative_def example_content_def example_world_def
      example_item_similarity_def example_content_similarity_def
      example_catalog_def example_book_def example_scored_def
      column_by_label_def positions_def sort_values_desc_def head_def loc_values_def
      select_similarity_def)

lemma hybrid_recommend_fallback:
  "collaborative_recommend (h_collab_recommender self) w isbn (n * 2) = (Inr [], w1) \<Longrightarrow>
   content_recommend (h_content_recommender self) w1 isbn (n * 2) = (Inr content_recs, w2) \<Longrightarrow>
   hybrid_recommend set_iter self w isbn n cw tw = (Inr (head n content_recs), w2)"
  by (simp add: hybrid_recommend_def)

text \<open>
  Claim C2 says that the hybrid recommender returns the content engine's own top
  \<open>n\<close> when the collaborative engine has nothing. The seed 444 is not in the
  collaborative index and \<open>n = 1\<close>: the hybrid recommender returns the first row of
  the content engine's result for \<open>2n\<close>, the book 222 with the score 9/10, while the
  content engine asked for its top 1 returns the book 333 with that score.
\<close>

theorem hybrid_fallback_is_not_content_top_n:
  "fst (collaborative_recommend example_collaborative example_world ''444'' (1 * 2)) = Inr [] \<and>
   fst (content_recommend example_content example_world ''444'' (1 * 2))
     = Inr [example_scored ''222'' 9 (9 / 10), example_scored ''333'' 9 (1 / 5)] \<and>
   fst (hybrid_recommend remdups example_hybrid example_world ''444'' 1 (1 / 2) (1 / 2))
     = Inr [example_scored ''222'' 9 (9 / 10)] \<and>
   fst (content_recommend example_content example_world ''444'' 1)
     = Inr [example_scored ''333'' 9 (9 / 10)]"
proof -
  have "c_books_with_rating (h_collab_recommender example_hybrid) < length (frames example_world)"
    and "t_books_with_rating (h_content_recommender example_hybrid) < length (frames example_world)"
    by (simp_all add: example_hybrid_def example_collaborative_def example_content_def
        example_world_def)
  then show ?thesis
    by (simp add: hybrid_recommend_value_closed hybrid_result_def
      collaborative_recommend_def content_recommend_def
      similar_recommend_value similar_result_def example_hybrid_def
      example_collaborative_def example_content_def example_world_def
      example_item_similarity_def example_content_similarity_def
      example_catalog_def example_book_def example_scored_def
      column_by_label_def positions_def sort_values_desc_def head_def loc_values_def
      select_similarity_def)
qed

section \<open>The seed is never recommended\<close>

lemma ISBN_select_similarity: "ISBN (select_similarity r) = ISBN r"
  by (simp add: select_similarity_def)

lemma ISBN_select_hybrid: "ISBN (select_hybrid r) = ISBN r"
  by (simp add: select_hybrid_def)

lemma ISBN_assigned_similarity:
  "r \<in> set (map2 (\<lambda>r v. r\<lparr>Similarity_Score := Some v\<rparr>) recs vs) \<Longrightarrow> ISBN r \<in> set (map ISBN recs)"
  by (auto dest: set_zip_leftD)

lemma ISBN_assigned_hybrid:
  "r \<in> set (map2 (\<lambda>r v. r\<lparr>Hybrid_Score := Some v\<rparr>) recs vs) \<Longrightarrow> ISBN r \<in> set (map ISBN recs)"
  by (auto dest: set_zip_leftD)

lemma top_similar_not_seed:
  "l \<in> set (map fst (head n (filter (\<lambda>(l, v). l \<noteq> isbn) xs))) \<Longrightarrow> l \<noteq> isbn"
  using set_head [of n "filter (\<lambda>(l, v). l \<noteq> isbn) xs"] by auto

lemma similar_result_not_seed:
  assumes "similar_result M catalog isbn n = Inr rows"
  shows "isbn \<notin> set (map ISBN rows)"
proof (cases "isbn \<in> set (labels M)")
  case False
  then show ?thesis using assms by (simp add: similar_result_def)
next
  case True
  then obtain column where col: "column_by_label M isbn = Inr column"
    using assms by (auto simp: similar_result_def split: sum.splits)
  define similar_books where
    "similar_books = filter (\<lambda>(l, v). l \<noteq> isbn) (sort_values_desc snd column)"
  define top where "top = map fst (head n similar_books)"
  define recs where "recs = filter (\<lambda>r. ISBN r \<in> set top) catalog"
  have rows: "rows = map select_similarity
                (sort_values_desc (\<lambda>r. the (Similarity_Score r))
                   (map2 (\<lambda>r v. r\<lparr>Similarity_Score := Some v\<rparr>) recs
                      (loc_values similar_books top)))"
    using assms True col
    by (simp add: similar_result_def Let_def similar_books_def top_def recs_def
        split: if_splits)
  show ?thesis
  proof
    assume "isbn \<in> set (map ISBN rows)"
    then obtain r where "r \<in> set (map2 (\<lambda>r v. r\<lparr>Similarity_Score := Some v\<rparr>) recs
                      (loc_values similar_books top))" and r: "ISBN r = isbn"
      unfolding rows by (auto simp: set_sort_values_desc ISBN_select_similarity)
    then have "isbn \<in> set (map ISBN recs)"
      using ISBN_assigned_similarity by blast
    then have "isbn \<in> set top" by (auto simp: recs_def)
    then show False
      unfolding top_def similar_books_def by (rule top_similar_not_seed [THEN notE]) simp
  qed
qed

lemma hybrid_scores_keys:
  "iterates_set set_iter \<Longrightarrow>
   set (map fst (hybrid_scores set_iter cw tw c t)) = set (map ISBN c) \<union> set (map ISBN t)"
  by (simp add: hybrid_scores_def iterates_set_def comp_def)

lemma hybrid_result_not_seed:
  assumes it: "iterates_set set_iter"
    and c: "isbn \<notin> set (map ISBN collab_recs)" and t: "isbn \<notin> set (map ISBN content_recs)"
    and res: "hybrid_result set_iter catalog n cw tw collab_recs content_recs = Inr rows"
  shows "isbn \<notin> set (map ISBN rows)"
proof (cases "collab_recs = [] \<or> content_recs = []")
  case True
  then have "rows = head n content_recs \<or> rows = head n collab_recs"
    using res by (auto simp: hybrid_result_def split: if_splits)
  then show ?thesis using c t set_head [of n content_recs] set_head [of n collab_recs]
    by auto
next
  case False
  define scores where "scores = hybrid_scores set_iter cw tw collab_recs content_recs"
  define top where "top = map fst (head n (sort_values_desc snd scores))"
  define recs where "recs = filter (\<lambda>r. ISBN r \<in> set top) catalog"
  obtain column where rows: "rows = map select_hybrid
                (sort_values_desc (\<lambda>r. the (Hybrid_Score r))
                   (map2 (\<lambda>r v. r\<lparr>Hybrid_Score := Some v\<rparr>) recs column))"
    using res False
    by (auto simp: hybrid_result_def Let_def scores_def top_def recs_def
        split: if_splits sum.splits)
  have "set top \<subseteq> set (map fst scores)"
    using set_head [of n "sort_values_desc snd scores"]
    by (auto simp: top_def set_sort_values_desc)
  then have top: "isbn \<notin> set top"
    using hybrid_scores_keys [OF it, of cw tw collab_recs content_recs] c t
    unfolding scores_def by blast
  show ?thesis
  proof
    assume "isbn \<in> set (map ISBN rows)"
    then obtain r where "r \<in> set (map2 (\<lambda>r v. r\<lparr>Hybrid_Score := Some v\<rparr>) recs column)"
      and "ISBN r = isbn"
      unfolding rows by (auto simp: set_sort_values_desc ISBN_select_hybrid)
    then have "isbn \<in> set (map ISBN recs)"
      using ISBN_assigned_hybrid by blast
    then show False using top by (auto simp: recs_def)
  qed
qed

text \<open>
  Claim C4. Whatever the seed ISBN and \<open>n\<close>, no row of a result of the collaborative,
  the content or the hybrid recommender has the seed's ISBN. For the hybrid recommender
  the loop over the set of candidates may visit them in any order.
\<close>

theorem recommend_never_returns_seed:
  assumes "iterates_set set_iter"
  shows "(fst (collaborative_recommend collab w isbn n) = Inr rows \<longrightarrow>
            isbn \<notin> set (map ISBN rows)) \<and>
         (fst (content_recommend content w isbn n) = Inr rows \<longrightarrow>
            isbn \<notin> set (map ISBN rows)) \<and>
         (fst (hybrid_recommend set_iter hybrid w isbn n cw tw) = Inr rows \<longrightarrow>
            isbn \<notin> set (map ISBN rows))"
proof (intro conjI impI)
  assume "fst (collaborative_recommend collab w isbn n) = Inr rows"
  then show "isbn \<notin> set (map ISBN rows)"
    unfolding collaborative_recommend_def similar_recommend_value
    by (rule similar_result_not_seed)
next
  assume "fst (content_recommend content w isbn n) = Inr rows"
  then show "isbn \<notin> set (map ISBN rows)"
    unfolding content_recommend_def similar_recommend_value
    by (rule similar_result_not_seed)
next
  assume h: "fst (hybrid_recommend set_iter hybrid w isbn n cw tw) = Inr rows"
  obtain r1 w1 where c: "collaborative_recommend (h_collab_recommender hybrid) w isbn (n * 2) = (r1, w1)"
    by (cases "collaborative_recommend (h_collab_recommender hybrid) w isbn (n * 2)")
  obtain r2 w2 where t: "content_recommend (h_content_recommender hybrid) w1 isbn (n * 2) = (r2, w2)"
    by (cases "content_recommend (h_content_recommender hybrid) w1 isbn (n * 2)")
  from h c t obtain cr tr where r1: "r1 = Inr cr" and r2: "r2 = Inr tr"
    and res: "hybrid_result set_iter (frames w2 ! c_books_with_rating (h_collab_recommender hybrid))
                n cw tw cr tr = Inr rows"
    by (auto simp: hybrid_recommend_value split: sum.splits)
  have "fst (collaborative_recommend (h_collab_recommender hybrid) w isbn (n * 2)) = Inr cr"
    using c r1 by simp
  then have 1: "isbn \<notin> set (map ISBN cr)"
    unfolding collaborative_recommend_def similar_recommend_value
    by (rule similar_result_not_seed)
  have "fst (content_recommend (h_content_recommender hybrid) w1 isbn (n * 2)) = Inr tr"
    using t r2 by simp
  then have 2: "isbn \<notin> set (map ISBN tr)"
    unfolding content_recommend_def similar_recommend_value
    by (rule similar_result_not_seed)
  show "isbn \<notin> set (map ISBN rows)"
    using assms 1 2 res by (rule hybrid_result_not_seed)
qed

theorem recommend_never_returns_seed_witness:
  "iterates_set remdups \<and>
   fst (collaborative_recommend example_collaborative example_world ''111'' 2)
     = Inr [example_scored ''222'' 9 (9 / 10), example_scored ''333'' 9 (1 / 10)] \<and>
   ''111'' \<notin> set (map ISBN [example_scored ''222'' 9 (9 / 10), example_scored ''333'' 9 (1 / 10)]) \<and>
   fst (content_recommend example_content example_world ''111'' 2)
     = Inr [example_scored ''222'' 9 (2 / 5), example_scored ''333'' 9 (3 / 10)] \<and>
   ''111'' \<notin> set (map ISBN [example_scored ''222'' 9 (2 / 5), example_scored ''333'' 9 (3 / 10)]) \<and>
   fst (hybrid_recommend remdups example_hybrid example_world ''111'' 1 (1 / 2) (1 / 2))
     = Inr [example_hybrid_row ''222'' 9 (13 / 20)] \<and>
   ''111'' \<notin> set (map ISBN [example_hybrid_row ''222'' 9 (13 / 20)])"
proof -
  note seed = recommend_never_returns_seed [OF iterates_set_remdups]
  have "''111'' \<notin> set (map ISBN [example_scored ''222'' 9 (9 / 10), example_scored ''333'' 9 (1 / 10)])"
    using seed [THEN conjunct1, of example_collaborative example_world "''111''" 2]
      example_collaborative_111 by blast
  moreover
  have "''111'' \<notin> set (map ISBN [example_scored ''222'' 9 (2 / 5), example_scored ''333'' 9 (3 / 10)])"
    using seed [THEN conjunct2, THEN conjunct1, of example_content example_world "''111''" 2]
      example_content_111 by blast
  moreover
  have "''111'' \<notin> set (map ISBN [example_hybrid_row ''222'' 9 (13 / 20)])"
    using seed [THEN conjunct2, THEN conjunct2, of example_hybrid example_world "''111''" 1]
      example_hybrid_111 by blast
  ultimately show ?thesis
    using iterates_set_remdups example_collaborative_111 example_content_111 example_hybrid_111
    by simp
qed

section \<open>The number of rows\<close>

lemma filter_enumerate_absent:
  "x \<notin> set xs \<Longrightarrow> filter (\<lambda>(i, l). l = x) (enumerate m xs) = []"
  by (induction xs arbitrary: m) auto

lemma filter_enumerate_distinct:
  "distinct xs \<Longrightarrow> x \<in> set xs \<Longrightarrow> \<exists>k. filter (\<lambda>(i, l). l = x) (enumerate m xs) = [(k, x)]"
proof (induction xs arbitrary: m)
  case Nil
  then show ?case by simp
next
  case (Cons y ys)
  show ?case
  proof (cases "y = x")
    case True
    then have "x \<notin> set ys" using Cons.prems by simp
    then show ?thesis using True by (simp add: filter_enumerate_absent)
  next
    case False
    then show ?thesis using Cons by simp
  qed
qed

lemma positions_distinct:
  "distinct xs \<Longrightarrow> x \<in> set xs \<Longrightarrow> \<exists>k. positions x xs = [k]"
  using filter_enumerate_distinct [of xs x 0] by (auto simp: positions_def)

lemma column_by_label_distinct:
  assumes "distinct (labels M)" and "isbn \<in> set (labels M)"
  shows "\<exists>column. column_by_label M isbn = Inr column \<and> map fst column = labels M"
proof -
  obtain k where "positions isbn (labels M) = [k]"
    using positions_distinct [OF assms] by blast
  then have "column_by_label M isbn
      = Inr (map (\<lambda>(i, l). (l, cells M ! i ! k)) (enumerate 0 (labels M)))"
    by (simp add: column_by_label_def)
  moreover have "map fst (map (\<lambda>(i, l). (l, cells M ! i ! k)) (enumerate 0 (labels M)))
      = map snd (enumerate 0 (labels M))"
    by (simp add: case_prod_unfold comp_def)
  ultimately show ?thesis by simp
qed

lemma distinct_keys_sort_values_desc:
  "distinct (map f xs) \<Longrightarrow> distinct (map f (sort_values_desc key xs))"
  by (simp add: distinct_map set_sort_values_desc distinct_sort_values_desc)

lemma count_key_one:
  "distinct (map fst xs) \<Longrightarrow> l \<in> set (map fst xs) \<Longrightarrow>
   length (filter (\<lambda>(k, v). k = l) xs) = 1"
proof (induction xs)
  case Nil
  then show ?case by simp
next
  case (Cons x xs)
  show ?case
  proof (cases "fst x = l")
    case True
    then have "l \<notin> set (map fst xs)" using Cons.prems by auto
    then have "filter (\<lambda>(k, v). k = l) xs = []"
      by (force simp: filter_empty_conv)
    then show ?thesis using True by (simp add: case_prod_unfold)
  next
    case False
    then show ?thesis using Cons by (auto simp: case_prod_unfold)
  qed
qed

lemma length_loc_values:
  "distinct (map fst series) \<Longrightarrow> set ls \<subseteq> set (map fst series) \<Longrightarrow>
   length (loc_values series ls) = length ls"
proof (induction ls)
  case Nil
  then show ?case by (simp add: loc_values_def)
next
  case (Cons l ls)
  then have "length (filter (\<lambda>(k, v). k = l) series) = 1"
    using count_key_one [of series l] by simp
  then show ?case using Cons by (simp add: loc_values_def)
qed

lemma length_filter_disjoint:
  "\<forall>x \<in> set xs. \<not> (P x \<and> Q x) \<Longrightarrow>
   length (filter (\<lambda>x. P x \<or> Q x) xs) = length (filter P xs) + length (filter Q xs)"
  by (induction xs) auto

lemma length_filter_isin:
  assumes "distinct ls"
    and "\<forall>l \<in> set ls. length (filter (\<lambda>r. ISBN r = l) catalog) = 1"
  shows "length (filter (\<lambda>r. ISBN r \<in> set ls) catalog) = length ls"
  using assms
proof (induction ls)
  case Nil
  then show ?case by simp
next
  case (Cons l ls)
  have "length (filter (\<lambda>r. ISBN r \<in> set (l # ls)) catalog)
      = length (filter (\<lambda>r. ISBN r = l \<or> ISBN r \<in> set ls) catalog)"
    by simp
  also have "\<dots> = length (filter (\<lambda>r. ISBN r = l) catalog)
                   + length (filter (\<lambda>r. ISBN r \<in> set ls) catalog)"
    using Cons.prems(1) by (intro length_filter_disjoint) auto
  also have "\<dots> = 1 + length ls"
    using Cons by simp
  finally show ?case by simp
qed

lemma exactly_one_row:
  "distinct (map ISBN catalog) \<Longrightarrow> l \<in> set (map ISBN catalog) \<Longrightarrow>
   length (filter (\<lambda>r. ISBN r = l) catalog) = 1"
proof (induction catalog)
  case Nil
  then show ?case by simp
next
  case (Cons r rs)
  show ?case
  proof (cases "ISBN r = l")
    case True
    then have "l \<notin> set (map ISBN rs)" using Cons.prems by auto
    then have "filter (\<lambda>r. ISBN r = l) rs = []"
      by (auto simp: filter_empty_conv)
    then show ?thesis using True by simp
  next
    case False
    then show ?thesis using Cons by auto
  qed
qed

lemma one_row_per_isbn_distinct:
  "distinct (labels M) \<Longrightarrow> distinct (map ISBN catalog) \<Longrightarrow>
   set (labels M) \<subseteq> set (map ISBN catalog) \<Longrightarrow> one_row_per_isbn M catalog"
  using exactly_one_row [of catalog]
  by (auto simp: one_row_per_isbn_def list_all_iff)

lemma similar_result_length:
  assumes n: "0 \<le> n" and seed: "isbn \<in> set (labels M)" and ok: "one_row_per_isbn M catalog"
  shows "\<exists>rows. similar_result M catalog isbn n = Inr rows \<and>
           length rows = min (nat n) (length (filter (\<lambda>l. l \<noteq> isbn) (labels M)))"
proof -
  have dl: "distinct (labels M)"
    and one: "\<forall>l \<in> set (labels M). length (filter (\<lambda>r. ISBN r = l) catalog) = 1"
    using ok by (auto simp: one_row_per_isbn_def list_all_iff)
  obtain column where col: "column_by_label M isbn = Inr column"
    and keys: "map fst column = labels M"
    using column_by_label_distinct [OF dl seed] by blast
  define similar_books where
    "similar_books = filter (\<lambda>(l, v). l \<noteq> isbn) (sort_values_desc snd column)"
  define top where "top = map fst (head n similar_books)"
  define recs where "recs = filter (\<lambda>r. ISBN r \<in> set top) catalog"
  define scores where "scores = loc_values similar_books top"
  have dk: "distinct (map fst similar_books)"
    unfolding similar_books_def
    by (intro distinct_map_filter distinct_keys_sort_values_desc) (simp add: keys dl)
  have "length similar_books = length (filter (\<lambda>(l, v). l \<noteq> isbn) column)"
    by (simp add: similar_books_def filter_sort_values_desc length_sort_values_desc)
  also have "\<dots> = length (filter (\<lambda>l. l \<noteq> isbn) (map fst column))"
    by (simp add: filter_map comp_def case_prod_unfold)
  finally have len: "length similar_books = length (filter (\<lambda>l. l \<noteq> isbn) (labels M))"
    by (simp add: keys)
  have top_take: "top = take (nat n) (map fst similar_books)"
    using n by (simp add: top_def head_def take_map)
  have ltop: "length top = min (nat n) (length (filter (\<lambda>l. l \<noteq> isbn) (labels M)))"
    by (simp add: top_take len min.commute)
  have dtop: "distinct top" using dk by (simp add: top_take)
  have top_sub: "set top \<subseteq> set (map fst similar_books)"
    unfolding top_take by (rule set_take_subset)
  have "set (map fst similar_books) \<subseteq> set (map fst column)"
    by (auto simp: similar_books_def set_sort_values_desc)
  then have "set top \<subseteq> set (labels M)"
    using top_sub keys by auto
  then have top_one: "\<forall>l \<in> set top. length (filter (\<lambda>r. ISBN r = l) catalog) = 1"
    using one by blast
  have lrecs: "length recs = length top"
    unfolding recs_def using dtop top_one by (rule length_filter_isin)
  have lscores: "length scores = length top"
    unfolding scores_def using dk top_sub by (rule length_loc_values)
  have "similar_result M catalog isbn n = Inr (map select_similarity
          (sort_values_desc (\<lambda>r. the (Similarity_Score r))
             (map2 (\<lambda>r v. r\<lparr>Similarity_Score := Some v\<rparr>) recs scores)))"
    using seed col lrecs lscores
    by (simp add: similar_result_def Let_def similar_books_def top_def recs_def scores_def)
  then show ?thesis
    using lrecs lscores ltop by (simp add: length_sort_values_desc)
qed

text \<open>
  Claim C8. \<open>n\<close> is the number of recommendations asked for, a count. For every
  seed of an engine's index and every such \<open>n\<close>, the index having no repeated label
  and the catalog exactly one row for every ISBN of the index, \<open>recommend\<close> of the
  collaborative and of the content engine returns a result of at most \<open>n\<close> rows,
  and of exactly \<open>n\<close> rows when the index has at least \<open>n\<close> labels other than
  the seed.
\<close>

theorem recommend_length:
  assumes "0 \<le> n"
  shows "(isbn \<in> set (labels (sims w ! c_item_similarity_df collab)) \<and>
          one_row_per_isbn (sims w ! c_item_similarity_df collab)
            (frames w ! c_books_with_rating collab) \<longrightarrow>
          (\<exists>rows. fst (collaborative_recommend collab w isbn n) = Inr rows \<and>
             int (length rows) \<le> n \<and>
             (n \<le> int (length (filter (\<lambda>l. l \<noteq> isbn)
                                 (labels (sims w ! c_item_similarity_df collab)))) \<longrightarrow>
              int (length rows) = n))) \<and>
         (isbn \<in> set (labels (sims w ! t_content_similarity_df content)) \<and>
          one_row_per_isbn (sims w ! t_content_similarity_df content)
            (frames w ! t_books_with_rating content) \<longrightarrow>
          (\<exists>rows. fst (content_recommend content w isbn n) = Inr rows \<and>
             int (length rows) \<le> n \<and>
             (n \<le> int (length (filter (\<lambda>l. l \<noteq> isbn)
                                 (labels (sims w ! t_content_similarity_df content)))) \<longrightarrow>
              int (length rows) = n)))"
proof (intro conjI impI; elim conjE)
  assume "isbn \<in> set (labels (sims w ! c_item_similarity_df collab))"
    and "one_row_per_isbn (sims w ! c_item_similarity_df collab)
            (frames w ! c_books_with_rating collab)"
  from similar_result_length [OF assms this]
  show "\<exists>rows. fst (collaborative_recommend collab w isbn n) = Inr rows \<and>
             int (length rows) \<le> n \<and>
             (n \<le> int (length (filter (\<lambda>l. l \<noteq> isbn)
                                 (labels (sims w ! c_item_similarity_df collab)))) \<longrightarrow>
              int (length rows) = n)"
    using assms by (auto simp: collaborative_recommend_def similar_recommend_value)
next
  assume "isbn \<in> set (labels (sims w ! t_content_similarity_df content))"
    and "one_row_per_isbn (sims w ! t_content_similarity_df content)
            (frames w ! t_books_with_rating content)"
  from similar_result_length [OF assms this]
  show "\<exists>rows. fst (content_recommend content w isbn n) = Inr rows \<and>
             int (length rows) \<le> n \<and>
             (n \<le> int (length (filter (\<lambda>l. l \<noteq> isbn)
                                 (labels (sims w ! t_content_similarity_df content)))) \<longrightarrow>
              int (length rows) = n)"
    using assms by (auto simp: content_recommend_def similar_recommend_value)
qed

theorem recommend_length_witness:
  "(0::int) \<le> 2 \<and>
   ''111'' \<in> set (labels (sims example_world ! c_item_similarity_df example_collaborative)) \<and>
   one_row_per_isbn (sims example_world ! c_item_similarity_df example_collaborative)
     (frames example_world ! c_books_with_rating example_collaborative) \<and>
   2 \<le> int (length (filter (\<lambda>l. l \<noteq> ''111'')
           (labels (sims example_world ! c_item_similarity_df example_collaborative)))) \<and>
   (\<exists>rows. fst (collaborative_recommend example_collaborative example_world ''111'' 2) = Inr rows \<and>
      int (length rows) = 2) \<and>
   ''111'' \<in> set (labels (sims example_world ! t_content_similarity_df example_content)) \<and>
   one_row_per_isbn (sims example_world ! t_content_similarity_df example_content)
     (frames example_world ! t_books_with_rating example_content) \<and>
   2 \<le> int (length (filter (\<lambda>l. l \<noteq> ''111'')
           (labels (sims example_world ! t_content_similarity_df example_content)))) \<and>
   (\<exists>rows. fst (content_recommend example_content example_world ''111'' 2) = Inr rows \<and>
      int (length rows) = 2)"
proof -
  have n: "(0::int) \<le> 2" by simp
  have c: "''111'' \<in> set (labels (sims example_world ! c_item_similarity_df example_collaborative))"
    "one_row_per_isbn (sims example_world ! c_item_similarity_df example_collaborative)
       (frames example_world ! c_books_with_rating example_collaborative)"
    "2 \<le> int (length (filter (\<lambda>l. l \<noteq> ''111'')
           (labels (sims example_world ! c_item_similarity_df example_collaborative))))"
    by (simp_all add: one_row_per_isbn_def example_world_def example_collaborative_def
        example_item_similarity_def example_catalog_def example_book_def)
  have t: "''111'' \<in> set (labels (sims example_world ! t_content_similarity_df example_content))"
    "one_row_per_isbn (sims example_world ! t_content_similarity_df example_content)
       (frames example_world ! t_books_with_rating example_content)"
    "2 \<le> int (length (filter (\<lambda>l. l \<noteq> ''111'')
           (labels (sims example_world ! t_content_similarity_df example_content))))"
    by (simp_all add: one_row_per_isbn_def example_world_def example_content_def
        example_content_similarity_def example_catalog_def example_book_def)
  note len = recommend_length [OF n, of "''111''" example_world example_collaborative example_content]
  have "\<exists>rows. fst (collaborative_recommend example_collaborative example_world ''111'' 2) = Inr rows \<and>
      int (length rows) = 2"
    using len [THEN conjunct1] c by blast
  moreover
  have "\<exists>rows. fst (content_recommend example_content example_world ''111'' 2) = Inr rows \<and>
      int (length rows) = 2"
    using len [THEN conjunct2] t by blast
  ultimately show ?thesis using c t by simp
qed

section \<open>The hybrid score\<close>

lemma map_of_tabulate:
  "map_of (map (\<lambda>k. (k, f k)) xs) k = (if k \<in> set xs then Some (f k) else None)"
  by (induction xs) auto

lemma hybrid_scores_lookup:
  assumes "iterates_set set_iter"
  shows "map_of (hybrid_scores set_iter cw tw c t) k =
    (if k \<in> set (map ISBN c) \<union> set (map ISBN t)
     then Some (cw * listed_score c k + tw * listed_score t k) else None)"
  using assms by (simp add: hybrid_scores_def map_of_tabulate iterates_set_def)

lemma lookup_all_present:
  "set ks \<subseteq> dom (map_of d) \<Longrightarrow> lookup_all d ks = Inr (map (\<lambda>k. the (map_of d k)) ks)"
  by (induction ks) auto

lemma map2_same: "map2 f xs (map g xs) = map (\<lambda>x. f x (g x)) xs"
  by (induction xs) auto

lemma hybrid_result_scores:
  assumes it: "iterates_set set_iter" and ne: "collab_recs \<noteq> []" "content_recs \<noteq> []"
  shows "\<exists>rows. hybrid_result set_iter catalog n cw tw collab_recs content_recs = Inr rows \<and>
     (\<forall>r \<in> set rows. Hybrid_Score r =
        Some (cw * listed_score collab_recs (ISBN r) + tw * listed_score content_recs (ISBN r)))"
proof -
  define scores where "scores = hybrid_scores set_iter cw tw collab_recs content_recs"
  define top where "top = map fst (head n (sort_values_desc snd scores))"
  define recs where "recs = filter (\<lambda>r. ISBN r \<in> set top) catalog"
  define g where "g = (\<lambda>k. cw * listed_score collab_recs k + tw * listed_score content_recs k)"
  have keys: "set (map fst scores) = set (map ISBN collab_recs) \<union> set (map ISBN content_recs)"
    using it by (simp add: scores_def hybrid_scores_def iterates_set_def comp_def)
  have "set top \<subseteq> set (map fst scores)"
    using set_head [of n "sort_values_desc snd scores"]
    by (auto simp: top_def set_sort_values_desc)
  then have top: "set top \<subseteq> set (map ISBN collab_recs) \<union> set (map ISBN content_recs)"
    using keys by simp
  have look: "map_of scores k = Some (g k)" if "k \<in> set top" for k
    using that top hybrid_scores_lookup [OF it, of cw tw collab_recs content_recs k]
    by (auto simp: scores_def g_def)
  have "set (map ISBN recs) \<subseteq> dom (map_of scores)"
    using look by (auto simp: recs_def)
  then have "lookup_all scores (map ISBN recs) = Inr (map (\<lambda>k. the (map_of scores k)) (map ISBN recs))"
    by (rule lookup_all_present)
  also have "map (\<lambda>k. the (map_of scores k)) (map ISBN recs) = map (\<lambda>r. g (ISBN r)) recs"
    using look by (auto simp: recs_def)
  finally have column: "lookup_all scores (map ISBN recs) = Inr (map (\<lambda>r. g (ISBN r)) recs)" .
  have "hybrid_result set_iter catalog n cw tw collab_recs content_recs =
      Inr (map select_hybrid (sort_values_desc (\<lambda>r. the (Hybrid_Score r))
             (map (\<lambda>r. r\<lparr>Hybrid_Score := Some (g (ISBN r))\<rparr>) recs)))"
    unfolding hybrid_result_def Let_def
      scores_def [symmetric] top_def [symmetric] recs_def [symmetric]
    using ne column by (simp add: map2_same)
  then show ?thesis
    by (auto simp: set_sort_values_desc select_hybrid_def g_def)
qed

text \<open>
  What \<open>listed_score\<close> reads: 0 for an ISBN the list does not have, and the score of
  the row for an ISBN the list has (one row per ISBN).
\<close>

lemma listed_score_absent: "k \<notin> set (map ISBN recs) \<Longrightarrow> listed_score recs k = 0"
proof -
  assume "k \<notin> set (map ISBN recs)"
  then have "filter (\<lambda>r. ISBN r = k) recs = []"
    by (auto simp: filter_empty_conv)
  then show ?thesis by (simp add: listed_score_def)
qed

lemma listed_score_present:
  "distinct (map ISBN recs) \<Longrightarrow> r \<in> set recs \<Longrightarrow>
   listed_score recs (ISBN r) = the (Similarity_Score r)"
proof (induction recs)
  case Nil
  then show ?case by simp
next
  case (Cons x xs)
  show ?case
  proof (cases "r = x")
    case True
    then show ?thesis by (simp add: listed_score_def)
  next
    case False
    then have "r \<in> set xs" and "ISBN x \<noteq> ISBN r" using Cons.prems by auto
    then show ?thesis using Cons by (simp add: listed_score_def)
  qed
qed

text \<open>
  Claim C3. When both engines return candidates for \<open>2n\<close>, the hybrid score of every
  candidate of the union of the two lists is \<open>collab_weight\<close> times its listed
  collaborative score plus \<open>content_weight\<close> times its listed content score, a list
  that does not have the candidate counting 0: this holds of the dictionary
  \<open>hybrid_scores\<close> for every candidate, and the call returns rows each of which
  reports that value as its \<open>Hybrid-Score\<close>.
\<close>

theorem hybrid_score_is_weighted_sum:
  assumes "iterates_set set_iter"
    and "collaborative_recommend (h_collab_recommender self) w isbn (n * 2) = (Inr collab_recs, w1)"
    and "content_recommend (h_content_recommender self) w1 isbn (n * 2) = (Inr content_recs, w2)"
    and "collab_recs \<noteq> []" and "content_recs \<noteq> []"
  shows "(\<forall>c \<in> set (map ISBN collab_recs) \<union> set (map ISBN content_recs).
            map_of (hybrid_scores set_iter collab_weight content_weight collab_recs content_recs) c
              = Some (collab_weight * listed_score collab_recs c
                      + content_weight * listed_score content_recs c)) \<and>
         (\<exists>rows. fst (hybrid_recommend set_iter self w isbn n collab_weight content_weight) = Inr rows \<and>
            (\<forall>r \<in> set rows.
               Hybrid_Score r = Some (collab_weight * listed_score collab_recs (ISBN r)
                                      + content_weight * listed_score content_recs (ISBN r))))"
proof
  show "\<forall>c \<in> set (map ISBN collab_recs) \<union> set (map ISBN content_recs).
            map_of (hybrid_scores set_iter collab_weight content_weight collab_recs content_recs) c
              = Some (collab_weight * listed_score collab_recs c
                      + content_weight * listed_score content_recs c)"
    using hybrid_scores_lookup [OF assms(1)] by simp
next
  have "fst (hybrid_recommend set_iter self w isbn n collab_weight content_weight)
      = hybrid_result set_iter (frames w2 ! c_books_with_rating (h_collab_recommender self)) n
          collab_weight content_weight collab_recs content_recs"
    using assms(2,3) by (simp add: hybrid_recommend_value)
  then show "\<exists>rows. fst (hybrid_recommend set_iter self w isbn n collab_weight content_weight) = Inr rows \<and>
            (\<forall>r \<in> set rows.
               Hybrid_Score r = Some (collab_weight * listed_score collab_recs (ISBN r)
                                      + content_weight * listed_score content_recs (ISBN r)))"
    using hybrid_result_scores [OF assms(1,4,5)] by simp
qed

theorem hybrid_score_is_weighted_sum_witness:
  "iterates_set remdups \<and>
   collaborative_recommend (h_collab_recommender example_hybrid) example_world ''111'' (1 * 2)
     = (Inr [example_scored ''222'' 9 (9 / 10), example_scored ''333'' 9 (1 / 10)],
        snd (collaborative_recommend example_collaborative example_world ''111'' 2)) \<and>
   content_recommend (h_content_recommender example_hybrid)
       (snd (collaborative_recommend example_collaborative example_world ''111'' 2)) ''111'' (1 * 2)
     = (Inr [example_scored ''222'' 9 (2 / 5), example_scored ''333'' 9 (3 / 10)],
        snd (content_recommend example_content
               (snd (collaborative_recommend example_collaborative example_world ''111'' 2))
               ''111'' 2)) \<and>
   map_of (hybrid_scores remdups (1 / 2) (1 / 2)
             [example_scored ''222'' 9 (9 / 10), example_scored ''333'' 9 (1 / 10)]
             [example_scored ''222'' 9 (2 / 5), example_scored ''333'' 9 (3 / 10)]) ''222''
     = Some (13 / 20) \<and>
   map_of (hybrid_scores remdups (1 / 2) (1 / 2)
             [example_scored ''222'' 9 (9 / 10), example_scored ''333'' 9 (1 / 10)]
             [example_scored ''222'' 9 (2 / 5), example_scored ''333'' 9 (3 / 10)]) ''333''
     = Some (1 / 5) \<and>
   fst (hybrid_recommend remdups example_hybrid example_world ''111'' 1 (1 / 2) (1 / 2))
     = Inr [example_hybrid_row ''222'' 9 (13 / 20)] \<and>
   Hybrid_Score (example_hybrid_row ''222'' 9 (13 / 20)) = Some (13 / 20)"
proof -
  let ?C = "[example_scored ''222'' 9 (9 / 10), example_scored ''333'' 9 (1 / 10)]"
  let ?T = "[example_scored ''222'' 9 (2 / 5), example_scored ''333'' 9 (3 / 10)]"
  let ?w1 = "snd (collaborative_recommend example_collaborative example_world ''111'' 2)"
  let ?w2 = "snd (content_recommend example_content ?w1 ''111'' 2)"
  have c: "collaborative_recommend (h_collab_recommender example_hybrid) example_world ''111'' (1 * 2)
      = (Inr ?C, ?w1)"
    using example_collaborative_111 by (simp add: prod_eq_iff example_hybrid_def)
  have t: "content_recommend (h_content_recommender example_hybrid) ?w1 ''111'' (1 * 2)
      = (Inr ?T, ?w2)"
    using example_content_111_after by (simp add: prod_eq_iff example_hybrid_def)
  have ne: "?C \<noteq> []" "?T \<noteq> []" by simp_all
  note sum = hybrid_score_is_weighted_sum [OF iterates_set_remdups c t ne, of "1 / 2" "1 / 2"]
  have l: "listed_score ?C ''222'' = 9 / 10" "listed_score ?T ''222'' = 2 / 5"
    "listed_score ?C ''333'' = 1 / 10" "listed_score ?T ''333'' = 3 / 10"
    by (simp_all add: listed_score_def example_scored_def example_book_def select_similarity_def)
  have k: "''222'' \<in> set (map ISBN ?C) \<union> set (map ISBN ?T)"
    "''333'' \<in> set (map ISBN ?C) \<union> set (map ISBN ?T)"
    by (simp_all add: example_scored_def example_book_def select_similarity_def)
  have s222: "map_of (hybrid_scores remdups (1 / 2) (1 / 2) ?C ?T) ''222'' = Some (13 / 20)"
    using sum [THEN conjunct1, THEN bspec, OF k(1)] l by simp
  have s333: "map_of (hybrid_scores remdups (1 / 2) (1 / 2) ?C ?T) ''333'' = Some (1 / 5)"
    using sum [THEN conjunct1, THEN bspec, OF k(2)] l by simp
  have h: "Hybrid_Score (example_hybrid_row ''222'' 9 (13 / 20)) = Some (13 / 20)"
    using sum [THEN conjunct2] example_hybrid_111 l
    by (auto simp: example_hybrid_row_def example_book_def select_hybrid_def)
  show ?thesis
    using iterates_set_remdups c t s222 s333 example_hybrid_111 h by simp
qed

section \<open>The popularity ranking\<close>

lemma merge_on_isbn_rows:
  "r \<in> set (merge_on_isbn books counts) \<Longrightarrow>
   \<exists>b c. b \<in> set books \<and> (ISBN b, c) \<in> set counts \<and> r = b\<lparr>Rating_Count := Some c\<rparr>"
  by (auto simp: merge_on_isbn_def)

lemma rating_counts_value:
  "(i, c) \<in> set (rating_counts merged) \<Longrightarrow>
   c = int (length (filter (\<lambda>r. Rated_ISBN r = i) merged))"
  by (auto simp: rating_counts_def)

lemma rank_ge_select: "rank_ge (select_popular r) (select_popular r') = rank_ge r r'"
  by (simp add: rank_ge_def select_popular_def)

lemma rank_ge_key:
  "rank_ge r r' \<longleftrightarrow>
   (Average_Rating r', the (Rating_Count r')) \<le> (Average_Rating r, the (Rating_Count r))"
  by (auto simp: rank_ge_def)

lemma popularity_sorted:
  "sorted_wrt rank_ge
     (head n (map select_popular
        (sort_values_desc (\<lambda>r. (Average_Rating r, the (Rating_Count r))) xs)))"
proof -
  have "sorted_wrt rank_ge (sort_values_desc (\<lambda>r. (Average_Rating r, the (Rating_Count r))) xs)"
    using sorted_sort_values_desc [of "\<lambda>r. (Average_Rating r, the (Rating_Count r))" xs]
    by (simp add: rank_ge_key [abs_def])
  then have "sorted_wrt rank_ge
     (map select_popular (sort_values_desc (\<lambda>r. (Average_Rating r, the (Rating_Count r))) xs))"
    by (simp add: sorted_wrt_map rank_ge_select)
  then show ?thesis
    using head_is_take [of n] by (metis sorted_wrt_take)
qed

text \<open>
  Claim C7. For every \<open>n\<close> and \<open>min_ratings\<close> the popularity recommender returns a
  result and raises nothing; each row is at least the next one in the lexicographic
  order of (average rating, rating count); every row has a rating count of at least
  \<open>min_ratings\<close>; and the result is empty when no book of the catalog has that many
  ratings.
\<close>

theorem popularity_ranking_sorted:
  "\<exists>rows. popularity_recommend self w n min_ratings = (Inr rows, w) \<and>
     (\<forall>i. Suc i < length rows \<longrightarrow> rank_ge (rows ! i) (rows ! Suc i)) \<and>
     (\<forall>r \<in> set rows. \<exists>c. Rating_Count r = Some c \<and> min_ratings \<le> c) \<and>
     ((\<forall>b \<in> set (frames w ! p_books_with_rating self).
          int (length (filter (\<lambda>r. Rated_ISBN r = ISBN b) (logs w ! p_book_rating_merged self)))
            < min_ratings) \<longrightarrow> rows = [])"
proof -
  define counts where "counts = rating_counts (logs w ! p_book_rating_merged self)"
  define merged where "merged = merge_on_isbn (frames w ! p_books_with_rating self) counts"
  define kept where "kept = filter (\<lambda>r. the (Rating_Count r) \<ge> min_ratings) merged"
  define rows where "rows = head n (map select_popular
        (sort_values_desc (\<lambda>r. (Average_Rating r, the (Rating_Count r))) kept))"
  have val: "popularity_recommend self w n min_ratings = (Inr rows, w)"
    by (simp add: popularity_recommend_def Let_def rows_def kept_def merged_def counts_def)
  have sorted: "sorted_wrt rank_ge rows"
    unfolding rows_def by (rule popularity_sorted)
  have consecutive: "rank_ge (rows ! i) (rows ! Suc i)" if "Suc i < length rows" for i
    using sorted that by (simp add: sorted_wrt_nth_less)
  have kept_rows: "\<exists>b c. b \<in> set (frames w ! p_books_with_rating self) \<and>
      c = int (length (filter (\<lambda>x. Rated_ISBN x = ISBN b) (logs w ! p_book_rating_merged self))) \<and>
      min_ratings \<le> c \<and> r = b\<lparr>Rating_Count := Some c\<rparr>" if "r \<in> set kept" for r
  proof -
    from that have m: "r \<in> set merged" and ge: "min_ratings \<le> the (Rating_Count r)"
      by (auto simp: kept_def)
    from merge_on_isbn_rows [OF m [unfolded merged_def]]
    obtain b c where b: "b \<in> set (frames w ! p_books_with_rating self)"
      and c: "(ISBN b, c) \<in> set counts" and r: "r = b\<lparr>Rating_Count := Some c\<rparr>"
      by blast
    from rating_counts_value [OF c [unfolded counts_def]] b r ge show ?thesis by auto
  qed
  have in_rows: "\<exists>k \<in> set kept. r = select_popular k" if "r \<in> set rows" for r
  proof -
    have "r \<in> set (map select_popular
        (sort_values_desc (\<lambda>r. (Average_Rating r, the (Rating_Count r))) kept))"
      using that set_head [of n "map select_popular
        (sort_values_desc (\<lambda>r. (Average_Rating r, the (Rating_Count r))) kept)"]
      unfolding rows_def by (rule_tac subsetD)
    then show ?thesis by (auto simp: set_sort_values_desc)
  qed
  have counted: "\<exists>c. Rating_Count r = Some c \<and> min_ratings \<le> c" if "r \<in> set rows" for r
  proof -
    from in_rows [OF that] obtain k where k: "k \<in> set kept" and r: "r = select_popular k"
      by blast
    from kept_rows [OF k] obtain b c where "min_ratings \<le> c" and "k = b\<lparr>Rating_Count := Some c\<rparr>"
      by blast
    then show ?thesis using r by (simp add: select_popular_def)
  qed
  have none: "rows = []"
    if "\<forall>b \<in> set (frames w ! p_books_with_rating self).
          int (length (filter (\<lambda>r. Rated_ISBN r = ISBN b) (logs w ! p_book_rating_merged self)))
            < min_ratings"
  proof -
    have "kept = []"
    proof (rule ccontr)
      assume "kept \<noteq> []"
      then obtain r where "r \<in> set kept" by (cases kept) auto
      from kept_rows [OF this] obtain b where "b \<in> set (frames w ! p_books_with_rating self)"
        and "min_ratings \<le> int (length (filter (\<lambda>x. Rated_ISBN x = ISBN b)
                                  (logs w ! p_book_rating_merged self)))"
        by blast
      with that show False by fastforce
    qed
    then show ?thesis by (simp add: rows_def sort_values_desc_def head_def)
  qed
  show ?thesis
  proof (rule exI [of _ rows], intro conjI)
    show "popularity_recommend self w n min_ratings = (Inr rows, w)" by (rule val)
    show "\<forall>i. Suc i < length rows \<longrightarrow> rank_ge (rows ! i) (rows ! Suc i)"
      using consecutive by simp
    show "\<forall>r \<in> set rows. \<exists>c. Rating_Count r = Some c \<and> min_ratings \<le> c"
      using counted by simp
    show "(\<forall>b \<in> set (frames w ! p_books_with_rating self).
          int (length (filter (\<lambda>r. Rated_ISBN r = ISBN b) (logs w ! p_book_rating_merged self)))
            < min_ratings) \<longrightarrow> rows = []"
      using none by simp
  qed
qed

theorem popularity_ranking_sorted_witness:
  "popularity_recommend example_popularity example_world 2 2
     = (Inr [example_popular_row ''333'' 9 3, example_popular_row ''222'' 9 2], example_world) \<and>
   Suc 0 < length [example_popular_row ''333'' 9 3, example_popular_row ''222'' 9 2] \<and>
   rank_ge (example_popular_row ''333'' 9 3) (example_popular_row ''222'' 9 2) \<and>
   Rating_Count (example_popular_row ''222'' 9 2) = Some 2 \<and>
   popularity_recommend example_popularity example_world 2 50 = (Inr [], example_world)"
proof -
  let ?rows = "[example_popular_row ''333'' 9 3, example_popular_row ''222'' 9 2]"
  have v: "popularity_recommend example_popularity example_world 2 2 = (Inr ?rows, example_world)"
    by (simp add: popularity_recommend_def example_rating_counts example_merge_on_isbn Let_def
        sort_values_desc_def head_def select_popular_def example_popular_row_def
        example_book_def)
  from popularity_ranking_sorted [of example_popularity example_world 2 2] v
  have s: "\<forall>i. Suc i < length ?rows \<longrightarrow> rank_ge (?rows ! i) (?rows ! Suc i)"
    and c: "\<forall>r \<in> set ?rows. \<exists>c. Rating_Count r = Some c \<and> 2 \<le> c"
    by auto
  have r: "rank_ge (example_popular_row ''333'' 9 3) (example_popular_row ''222'' 9 2)"
    using s [THEN spec, of 0] by simp
  have few: "\<forall>b \<in> set (frames example_world ! p_books_with_rating example_popularity).
       int (length (filter (\<lambda>r. Rated_ISBN r = ISBN b)
              (logs example_world ! p_book_rating_merged example_popularity))) < 50"
    by (simp add: example_popularity_def example_world_def example_catalog_def
        example_merged_def example_book_def example_rating_def)
  from popularity_ranking_sorted [of example_popularity example_world 2 50] few
  have e: "popularity_recommend example_popularity example_world 2 50 = (Inr [], example_world)"
    by auto
  show ?thesis using v r e
    by (simp add: example_popular_row_def select_popular_def example_book_def)
qed

section \<open>The shared catalog\<close>

lemma ContentRecommender_world:
  "snd (ContentRecommender lib b w) =
     w\<lparr>frames := (frames w)[b := map (\<lambda>r. r\<lparr>Content := Some (content_document r)\<rparr>) (frames w ! b)],
       sims := sims w @ [\<lparr>labels = map ISBN ((frames w)[b := map (\<lambda>r. r\<lparr>Content := Some (content_document r)\<rparr>) (frames w ! b)] ! b),
                          cells = cosine_similarity lib (tfidf_fit_transform lib
                            (map (\<lambda>r. the (Content r)) ((frames w)[b := map (\<lambda>r. r\<lparr>Content := Some (content_document r)\<rparr>) (frames w ! b)] ! b)))\<rparr>]\<rparr>"
  by (simp add: ContentRecommender_def assign_content_def new_sim_def Let_def map2_same)

lemma ContentRecommender_ref: "t_books_with_rating (fst (ContentRecommender lib b w)) = b"
  by (simp add: ContentRecommender_def assign_content_def new_sim_def Let_def)

lemma CollaborativeRecommender_ref:
  "c_books_with_rating (fst (CollaborativeRecommender lib f b w)) = b"
  by (simp add: CollaborativeRecommender_def new_pivot_def new_sim_def Let_def)

lemma CollaborativeRecommender_frames: "frames (snd (CollaborativeRecommender lib f b w)) = frames w"
  by (simp add: CollaborativeRecommender_def new_pivot_def new_sim_def Let_def)

lemma get_filtered_ratings_frames: "frames (snd (get_filtered_ratings m mb mu w)) = frames w"
  by (simp add: get_filtered_ratings_def new_log_def Let_def)

lemma initialize_shares_catalog:
  "p_books_with_rating (s_popularity_recommender (fst (initialize lib mb mu b m w))) = b \<and>
   c_books_with_rating (s_collaborative_recommender (fst (initialize lib mb mu b m w))) = b \<and>
   t_books_with_rating (s_content_recommender (fst (initialize lib mb mu b m w))) = b \<and>
   c_books_with_rating (h_collab_recommender (s_hybrid_recommender (fst (initialize lib mb mu b m w)))) = b \<and>
   t_books_with_rating (h_content_recommender (s_hybrid_recommender (fst (initialize lib mb mu b m w)))) = b \<and>
   s_books_with_rating (fst (initialize lib mb mu b m w)) = b"
  using ContentRecommender_ref CollaborativeRecommender_ref
  by (simp add: initialize_def Let_def split: prod.splits) (metis fst_conv)

lemma initialize_frames:
  "frames (snd (initialize lib mb mu b m w)) =
     (frames w)[b := map (\<lambda>r. r\<lparr>Content := Some (content_document r)\<rparr>) (frames w ! b)]"
proof -
  obtain f w1 where 1: "get_filtered_ratings m mb mu w = (f, w1)"
    by (cases "get_filtered_ratings m mb mu w")
  obtain c w2 where 2: "CollaborativeRecommender lib f b w1 = (c, w2)"
    by (cases "CollaborativeRecommender lib f b w1")
  have "frames w1 = frames w" using get_filtered_ratings_frames [of m mb mu w] 1 by simp
  moreover have "frames w2 = frames w1" using CollaborativeRecommender_frames [of lib f b w1] 2 by simp
  moreover have "snd (initialize lib mb mu b m w) = snd (ContentRecommender lib b w2)"
    using 1 2 by (simp add: initialize_def Let_def split: prod.splits)
  ultimately show ?thesis by (simp add: ContentRecommender_world)
qed

lemma popularity_recommend_extends: "extends w (snd (popularity_recommend self w n m))"
  by (simp add: popularity_recommend_def Let_def extends_refl)

lemma seed_call_extends:
  "extends w (snd (if method = ''collaborative'' then
              collaborative_recommend (s_collaborative_recommender self) w isbn n
            else if method = ''content'' then
              content_recommend (s_content_recommender self) w isbn n
            else hybrid_recommend set_iter (s_hybrid_recommender self) w isbn n (1 / 2) (1 / 2)))"
  by (simp add: collaborative_recommend_def content_recommend_def similar_recommend_extends
      hybrid_recommend_extends)

lemma seed_loop_extends: "extends w (snd (seed_loop set_iter self n method seeds w))"
proof (induction seeds arbitrary: w)
  case Nil
  show ?case by (simp add: extends_refl)
next
  case (Cons isbn rest)
  let ?call = "if method = ''collaborative'' then
              collaborative_recommend (s_collaborative_recommender self) w isbn n
            else if method = ''content'' then
              content_recommend (s_content_recommender self) w isbn n
            else hybrid_recommend set_iter (s_hybrid_recommender self) w isbn n (1 / 2) (1 / 2)"
  obtain r1 w1 where c: "?call = (r1, w1)" by (cases ?call)
  have e1: "extends w w1" using seed_call_extends [of w "method" self isbn n set_iter] c by simp
  show ?case
  proof (cases r1)
    case (Inl e)
    then show ?thesis using c e1 by simp
  next
    case (Inr recs)
    obtain r2 w2 where l: "seed_loop set_iter self n method rest w1 = (r2, w2)"
      by (cases "seed_loop set_iter self n method rest w1")
    have "extends w1 w2" using Cons.IH [of w1] l by simp
    with e1 have "extends w w2" by (rule extends_trans)
    then show ?thesis using c Inr l by (cases r2) simp_all
  qed
qed

lemma recommend_by_isbn_extends:
  "extends w (snd (recommend_by_isbn set_iter self w isbn n method))"
  by (simp add: recommend_by_isbn_def popularity_recommend_extends extends_refl
      collaborative_recommend_def content_recommend_def similar_recommend_extends
      hybrid_recommend_extends)

lemma recommend_for_user_extends:
  "extends w (snd (recommend_for_user set_iter self w user_id n method))"
proof -
  let ?seeds = "map Rated_ISBN (head 3 (sort_values_desc Book_Rating
                   (filter (\<lambda>r. User_ID r = user_id) (logs w ! s_filtered_ratings self))))"
  obtain r1 w1 where l: "seed_loop set_iter self n method ?seeds w = (r1, w1)"
    by (cases "seed_loop set_iter self n method ?seeds w")
  have "extends w w1" using seed_loop_extends [of w set_iter self n "method" ?seeds] l by simp
  then show ?thesis
    using l by (cases r1)
      (simp_all add: recommend_for_user_def Let_def popularity_recommend_extends)
qed

text \<open>
  Claim C10. The content recommender keeps the reference to the catalog it is given and
  its construction writes the \<open>Content\<close> column into that object: every row of the
  catalog is afterwards the row it was with \<open>Content\<close> set to the author, the
  publisher and the title joined by blanks, so that all other columns and the rows are
  as before; no other frame, no interaction log and no user-item matrix changes, and the
  similarity DataFrames that existed are kept. \<open>initialize\<close> hands the same catalog
  object to the popularity, the collaborative and the content recommender (the hybrid
  recommender reads it through the collaborative one). No call of \<open>recommend\<close> of the
  four recommenders, of \<open>recommend_by_isbn\<close> or of \<open>recommend_for_user\<close>, in any
  store \<open>w'\<close>, changes an object of the store: the catalog, the logs, the user-item
  matrices and the similarity DataFrames are after the call what they were before, and
  only new frames are added.
\<close>

theorem content_construction_changes_catalog:
  assumes "b < length (frames w)"
  shows "t_books_with_rating (fst (ContentRecommender lib b w)) = b \<and>
    frames (snd (ContentRecommender lib b w)) ! b
      = map (\<lambda>r. r\<lparr>Content := Some (content_document r)\<rparr>) (frames w ! b) \<and>
    map (\<lambda>r. r\<lparr>Content := None\<rparr>) (frames (snd (ContentRecommender lib b w)) ! b)
      = map (\<lambda>r. r\<lparr>Content := None\<rparr>) (frames w ! b) \<and>
    frames (snd (ContentRecommender lib b w))
      = (frames w)[b := frames (snd (ContentRecommender lib b w)) ! b] \<and>
    logs (snd (ContentRecommender lib b w)) = logs w \<and>
    pivots (snd (ContentRecommender lib b w)) = pivots w \<and>
    take (length (sims w)) (sims (snd (ContentRecommender lib b w))) = sims w \<and>
    p_books_with_rating (s_popularity_recommender (fst (initialize lib mb mu b m w))) = b \<and>
    c_books_with_rating (s_collaborative_recommender (fst (initialize lib mb mu b m w))) = b \<and>
    t_books_with_rating (s_content_recommender (fst (initialize lib mb mu b m w))) = b \<and>
    c_books_with_rating (h_collab_recommender (s_hybrid_recommender
        (fst (initialize lib mb mu b m w)))) = b \<and>
    frames (snd (initialize lib mb mu b m w)) ! b
      = map (\<lambda>r. r\<lparr>Content := Some (content_document r)\<rparr>) (frames w ! b) \<and>
    extends w' (snd (popularity_recommend popularity w' n min_ratings)) \<and>
    extends w' (snd (collaborative_recommend collab w' isbn n)) \<and>
    extends w' (snd (content_recommend content w' isbn n)) \<and>
    extends w' (snd (hybrid_recommend set_iter hybrid w' isbn n cw tw)) \<and>
    extends w' (snd (recommend_by_isbn set_iter self w' isbn n method)) \<and>
    extends w' (snd (recommend_for_user set_iter self w' user_id n method))"
proof (intro conjI)
  show "frames (snd (ContentRecommender lib b w)) ! b
      = map (\<lambda>r. r\<lparr>Content := Some (content_document r)\<rparr>) (frames w ! b)"
    using assms by (simp add: ContentRecommender_world)
  then show "map (\<lambda>r. r\<lparr>Content := None\<rparr>) (frames (snd (ContentRecommender lib b w)) ! b)
      = map (\<lambda>r. r\<lparr>Content := None\<rparr>) (frames w ! b)"
    by simp
  show "frames (snd (ContentRecommender lib b w))
      = (frames w)[b := frames (snd (ContentRecommender lib b w)) ! b]"
    using assms by (simp add: ContentRecommender_world)
  show "frames (snd (initialize lib mb mu b m w)) ! b
      = map (\<lambda>r. r\<lparr>Content := Some (content_document r)\<rparr>) (frames w ! b)"
    using assms by (simp add: initialize_frames)
qed (simp_all add: ContentRecommender_world ContentRecommender_ref initialize_shares_catalog
      popularity_recommend_extends hybrid_recommend_extends
      recommend_by_isbn_extends recommend_for_user_extends
      collaborative_recommend_def content_recommend_def similar_recommend_extends)

theorem content_construction_changes_catalog_witness:
  "0 < length (frames example_world) \<and>
   t_books_with_rating (fst (ContentRecommender example_library 0 example_world)) = 0 \<and>
   frames (snd (ContentRecommender example_library 0 example_world)) ! 0
     = [(example_book ''111'' 8)\<lparr>Content := Some ''Author Press Title 111''\<rparr>,
        (example_book ''222'' 9)\<lparr>Content := Some ''Author Press Title 222''\<rparr>,
        (example_book ''333'' 9)\<lparr>Content := Some ''Author Press Title 333''\<rparr>,
        (example_book ''444'' 7)\<lparr>Content := Some ''Author Press Title 444''\<rparr>] \<and>
   frames example_world ! 0
     = [example_book ''111'' 8, example_book ''222'' 9, example_book ''333'' 9,
        example_book ''444'' 7] \<and>
   p_books_with_rating (s_popularity_recommender
       (fst (initialize example_library 2 2 0 0 example_world))) = 0 \<and>
   c_books_with_rating (s_collaborative_recommender
       (fst (initialize example_library 2 2 0 0 example_world))) = 0"
proof -
  have h: "0 < length (frames example_world)" by (simp add: example_world_def)
  note content_construction_changes_catalog [OF h, of example_library 2 2 0]
  then show ?thesis
    using h by (simp add: example_world_def example_catalog_def example_book_def
        content_document_def fillna_def)
qed

end
